theory Spec2Isabelle
  imports Complex_Main
begin

section \<open>Data model (types.ts)\<close>

text \<open>
  The TypeScript interface \<^verbatim>\<open>Metric<T>\<close> has three fields: \<^verbatim>\<open>known: boolean\<close>,
  the optional \<^verbatim>\<open>reason?: string\<close> and \<^verbatim>\<open>value: T | null\<close>. The interface does not tie
  \<^verbatim>\<open>known\<close> to \<^verbatim>\<open>value\<close>, so the record keeps the three fields independent: an
  absent reason and a null value are \<open>None\<close>. The field \<^verbatim>\<open>value\<close> is called \<open>mvalue\<close>
  here. JavaScript numbers that count findings, jobs and commits are modelled as \<open>int\<close>.
\<close>

record 'a Metric =
  known :: bool
  reason :: "string option"
  mvalue :: "'a option"

datatype StatusLevel = GREEN | AMBER | RED

datatype WarningSeverity = sev_info | sev_warn | sev_error

text \<open>
  \<^verbatim>\<open>BoardWarning\<close>; its fields carry the prefix \<open>w_\<close> because \<^verbatim>\<open>reason\<close> and \<^verbatim>\<open>code\<close> are
  field names of other interfaces too. The optional \<^verbatim>\<open>context?: string\<close> is an option.
\<close>

record BoardWarning =
  w_code :: string
  w_context :: "string option"
  w_reason :: string
  w_severity :: WarningSeverity
  w_source :: string

record 'c CollectorOutput =
  card :: 'c
  co_warnings :: "BoardWarning list"

record OverallCard =
  level :: StatusLevel
  reasons :: "string list"

record SecurityCard =
  critical :: "int Metric"
  info :: "int Metric"
  warning :: "int Metric"

record CronCard =
  enabledCount :: "int Metric"
  failingOrRecentErrorCount :: "int Metric"

record ChannelsCard =
  configuredCount :: "int Metric"
  connectedCount :: "int Metric"

record AgentsCard =
  agentsConfiguredCount :: "int Metric"

record SessionsCard =
  activeCount :: "int Metric"
  activeWindowMinutes :: int

text \<open>\<^verbatim>\<open>RepoWorkspaceDrift\<close>; the three metrics that \<^verbatim>\<open>RepoDriftCard\<close> has as well carry
  the prefix \<open>ws_\<close>.\<close>

record RepoWorkspaceDrift =
  ws_aheadCount :: "int Metric"
  ws_behindCount :: "int Metric"
  ws_clean :: "bool Metric"
  diagnostics :: "BoardWarning list option"
  repositoryRoot :: "string Metric"
  workspacePath :: string

record RepoDriftCard =
  aheadCount :: "int Metric"
  behindCount :: "int Metric"
  clean :: "bool Metric"
  dirtyCount :: "int Metric"
  repositoryCount :: "int Metric"
  workspaces :: "RepoWorkspaceDrift list"

record VersionDriftCard =
  installedVersion :: "string Metric"
  latestVersion :: "string Metric"
  updateAvailable :: "bool Metric"

record GatewayCard =
  gw_error :: "string Metric"
  reachable :: "bool Metric"

text \<open>\<^verbatim>\<open>Omit<BoardSnapshot, "overall">\<close>, the argument of the deriver.\<close>

record SnapshotWithoutOverall =
  agents :: AgentsCard
  channels :: ChannelsCard
  cron :: CronCard
  gateway :: GatewayCard
  generatedAt :: string
  repoDrift :: RepoDriftCard
  security :: SecurityCard
  sessions :: SessionsCard
  versionDrift :: VersionDriftCard
  warnings :: "BoardWarning list"

definition knownMetric :: "'a \<Rightarrow> 'a Metric" where
  "knownMetric v = \<lparr>known = True, reason = None, mvalue = Some v\<rparr>"

definition unknownMetric :: "string \<Rightarrow> 'a Metric" where
  "unknownMetric r = \<lparr>known = False, reason = Some r, mvalue = None\<rparr>"

text \<open>\<^verbatim>\<open>buildWarning\<close>: the context key is present only when a context is passed.\<close>

definition buildWarning ::
  "string \<Rightarrow> string \<Rightarrow> string \<Rightarrow> WarningSeverity \<Rightarrow> string option \<Rightarrow> BoardWarning" where
  "buildWarning src cd rsn sev ctx =
     \<lparr>w_code = cd, w_context = ctx, w_reason = rsn, w_severity = sev, w_source = src\<rparr>"

section \<open>Overall-status deriver (status.ts)\<close>

definition metricGreaterThan :: "int Metric \<Rightarrow> int \<Rightarrow> bool" where
  "metricGreaterThan metric threshold =
     (known metric \<and> mvalue metric \<noteq> None \<and>
      (case mvalue metric of Some v \<Rightarrow> v > threshold | None \<Rightarrow> False))"

definition metricEqualsBoolean :: "bool Metric \<Rightarrow> bool \<Rightarrow> bool" where
  "metricEqualsBoolean metric expected = (known metric \<and> mvalue metric = Some expected)"

definition metricUnknown :: "'a Metric \<Rightarrow> bool" where
  "metricUnknown metric = (\<not> known metric)"

text \<open>
  \<^verbatim>\<open>deriveOverallCard\<close>. The source puts the nine watch-list metrics, of three different
  value types, into one array of \<^verbatim>\<open>Metric<unknown>\<close> and asks \<^verbatim>\<open>some(metricUnknown)\<close>; a HOL
  list has one element type, so the list holds \<open>metricUnknown\<close> of each metric, in the
  source's order.
\<close>

definition deriveOverallCard :: "SnapshotWithoutOverall \<Rightarrow> OverallCard" where
  "deriveOverallCard snapshotWithoutOverall =
     (let redReasons = filter (\<lambda>reason. length reason > 0)
            [ if metricGreaterThan (critical (security snapshotWithoutOverall)) 0
              then ''critical security findings > 0'' else '''',
              if metricGreaterThan (failingOrRecentErrorCount (cron snapshotWithoutOverall)) 0
              then ''failing cron jobs > 0'' else '''',
              if metricEqualsBoolean (reachable (gateway snapshotWithoutOverall)) False
              then ''gateway unreachable'' else '''' ]
      in if length redReasons > 0
         then \<lparr>level = RED, reasons = redReasons\<rparr>
         else
           (let criticalUnknown = list_ex (\<lambda>unknown. unknown)
                  [ metricUnknown (critical (security snapshotWithoutOverall)),
                    metricUnknown (warning (security snapshotWithoutOverall)),
                    metricUnknown (failingOrRecentErrorCount (cron snapshotWithoutOverall)),
                    metricUnknown (configuredCount (channels snapshotWithoutOverall)),
                    metricUnknown (reachable (gateway snapshotWithoutOverall)),
                    metricUnknown (clean (repoDrift snapshotWithoutOverall)),
                    metricUnknown (behindCount (repoDrift snapshotWithoutOverall)),
                    metricUnknown (installedVersion (versionDrift snapshotWithoutOverall)),
                    metricUnknown (latestVersion (versionDrift snapshotWithoutOverall)) ];
                amberReasons = filter (\<lambda>reason. length reason > 0)
                  [ if metricGreaterThan (warning (security snapshotWithoutOverall)) 0
                    then ''warning findings > 0'' else '''',
                    if criticalUnknown
                    then ''unknown state in critical cards'' else '''',
                    if metricEqualsBoolean (clean (repoDrift snapshotWithoutOverall)) False
                    then ''repo drift: dirty repository'' else '''',
                    if metricGreaterThan (behindCount (repoDrift snapshotWithoutOverall)) 0
                    then ''repo drift: behind upstream'' else '''' ]
            in if length amberReasons > 0
               then \<lparr>level = AMBER, reasons = amberReasons\<rparr>
               else \<lparr>level = GREEN, reasons = [''all health checks passed'']\<rparr>))"

text \<open>The healthy baseline of the deriver's test file, with a fixed timestamp.\<close>

definition healthySnapshot :: SnapshotWithoutOverall where
  "healthySnapshot =
     \<lparr>agents = \<lparr>agentsConfiguredCount = knownMetric 2\<rparr>,
      channels = \<lparr>configuredCount = knownMetric 2, connectedCount = knownMetric 2\<rparr>,
      cron = \<lparr>enabledCount = knownMetric 5, failingOrRecentErrorCount = knownMetric 0\<rparr>,
      gateway = \<lparr>gw_error = unknownMetric ''no error'', reachable = knownMetric True\<rparr>,
      generatedAt = ''2026-01-01T00:00:00.000Z'',
      repoDrift = \<lparr>aheadCount = knownMetric 0, behindCount = knownMetric 0,
                   clean = knownMetric True, dirtyCount = knownMetric 0,
                   repositoryCount = knownMetric 1, workspaces = []\<rparr>,
      security = \<lparr>critical = knownMetric 0, info = knownMetric 1, warning = knownMetric 0\<rparr>,
      sessions = \<lparr>activeCount = knownMetric 1, activeWindowMinutes = 60\<rparr>,
      versionDrift = \<lparr>installedVersion = knownMetric ''2026.2.9'',
                      latestVersion = knownMetric ''2026.2.9'',
                      updateAvailable = knownMetric False\<rparr>,
      warnings = []\<rparr>"

section \<open>Repo-drift aggregator (collectors/repoDrift.ts)\<close>

text \<open>The operator \<^verbatim>\<open>a ?? b\<close>: \<open>b\<close> when \<open>a\<close> is undefined or null.\<close>

definition nullish :: "'a option \<Rightarrow> 'a \<Rightarrow> 'a" where
  "nullish a b = (case a of Some v \<Rightarrow> v | None \<Rightarrow> b)"

text \<open>\<^verbatim>\<open>unknownMetrics[0]?.reason\<close>: undefined on the empty array and when the first
  element has no reason.\<close>

definition firstReason :: "'a Metric list \<Rightarrow> string option" where
  "firstReason unknownMetrics = (case unknownMetrics of [] \<Rightarrow> None | m # _ \<Rightarrow> reason m)"

definition aggregateBooleanMetric :: "bool Metric list \<Rightarrow> string \<Rightarrow> bool Metric" where
  "aggregateBooleanMetric metrics unknownReason =
     (let knownValues = map (\<lambda>metric. mvalue metric = Some True)
                            (filter (\<lambda>metric. known metric \<and> mvalue metric \<noteq> None) metrics);
          unknownMetrics = filter (\<lambda>metric. \<not> known metric) metrics
      in if List.member knownValues False then knownMetric False
         else if length unknownMetrics > 0
         then unknownMetric (nullish (firstReason unknownMetrics) unknownReason)
         else knownMetric True)"

definition aggregateCountMetric :: "int Metric list \<Rightarrow> string \<Rightarrow> int Metric" where
  "aggregateCountMetric metrics unknownReason =
     (let unknownMetrics = filter (\<lambda>metric. \<not> known metric \<or> mvalue metric = None) metrics
      in if length unknownMetrics > 0
         then unknownMetric (nullish (firstReason unknownMetrics) unknownReason)
         else knownMetric (foldl (\<lambda>sum v. sum + v) 0
                                 (map (\<lambda>metric. nullish (mvalue metric) 0) metrics)))"

definition aggregateRepoDrift :: "RepoWorkspaceDrift list \<Rightarrow> string \<Rightarrow> RepoDriftCard" where
  "aggregateRepoDrift workspaceDrifts missingWorkspaceReason =
     (if length workspaceDrifts = 0
      then \<lparr>aheadCount = unknownMetric missingWorkspaceReason,
            behindCount = unknownMetric missingWorkspaceReason,
            clean = unknownMetric missingWorkspaceReason,
            dirtyCount = unknownMetric missingWorkspaceReason,
            repositoryCount = unknownMetric missingWorkspaceReason,
            workspaces = []\<rparr>
      else
        (let cleanMetric = aggregateBooleanMetric (map ws_clean workspaceDrifts)
                             ''repo cleanliness unknown'';
             dirtyCountMetric =
               (if list_all (\<lambda>workspace. known (ws_clean workspace)) workspaceDrifts
                then knownMetric (int (length
                       (filter (\<lambda>workspace. mvalue (ws_clean workspace) = Some False)
                               workspaceDrifts)))
                else unknownMetric ''dirty count unavailable from one or more repositories'');
             repositoryCountValue =
               int (length (filter (\<lambda>workspace. known (repositoryRoot workspace))
                                   workspaceDrifts))
         in \<lparr>aheadCount = aggregateCountMetric (map ws_aheadCount workspaceDrifts)
                             ''ahead count unknown'',
             behindCount = aggregateCountMetric (map ws_behindCount workspaceDrifts)
                             ''behind count unknown'',
             clean = cleanMetric,
             dirtyCount = dirtyCountMetric,
             repositoryCount = knownMetric repositoryCountValue,
             workspaces = workspaceDrifts\<rparr>))"

text \<open>A workspace record in the shape the aggregator's test file builds them (no
  diagnostics key).\<close>

definition workspaceDrift ::
  "int Metric \<Rightarrow> int Metric \<Rightarrow> bool Metric \<Rightarrow> string Metric \<Rightarrow> string \<Rightarrow> RepoWorkspaceDrift"
  where
  "workspaceDrift ahead behind cl rootMetric path =
     \<lparr>ws_aheadCount = ahead, ws_behindCount = behind, ws_clean = cl, diagnostics = None,
      repositoryRoot = rootMetric, workspacePath = path\<rparr>"

section \<open>Warning deduplication (status.ts)\<close>

text \<open>\<^verbatim>\<open>Array.prototype.join\<close> on an array of strings.\<close>

fun join :: "string \<Rightarrow> string list \<Rightarrow> string" where
  "join sep [] = []"
| "join sep [x] = x"
| "join sep (x # y # ys) = x @ sep @ join sep (y # ys)"







section \<open>External-command bridge (collectors/openclaw.ts)\<close>

text \<open>
  Strings are lists of 8-bit characters, read as the UTF-16 code units below 256.
  \<^verbatim>\<open>String.prototype.trim\<close> strips white space and line terminators from both ends; of
  those, the code units below 256 are TAB, LF, VT, FF, CR, SPACE and NBSP.
\<close>

definition isWhiteSpace :: "char \<Rightarrow> bool" where
  "isWhiteSpace c = List.member [CHR 0x09, CHR 0x0A, CHR 0x0B, CHR 0x0C, CHR 0x0D, CHR 0x20, CHR 0xA0] c"

definition trim :: "string \<Rightarrow> string" where
  "trim s = rev (dropWhile isWhiteSpace (rev (dropWhile isWhiteSpace s)))"

text \<open>\<^verbatim>\<open>CommandResult\<close>, fields prefixed with \<open>r_\<close>; \<^verbatim>\<open>code: number | null\<close> and the
  optional \<^verbatim>\<open>reason\<close> are options.\<close>

record CommandResult =
  r_args :: "string list"
  r_code :: "int option"
  r_command :: string
  r_ok :: bool
  r_reason :: "string option"
  r_stderr :: string
  r_stdout :: string

text \<open>Decimal rendering of an integer, as a template literal renders an exit code.\<close>

function string_of_nat :: "nat \<Rightarrow> string" where
  "string_of_nat n =
     (if n < 10 then [''0123456789'' ! n]
      else string_of_nat (n div 10) @ [''0123456789'' ! (n mod 10)])"
  by pat_completeness auto
termination
  by (relation "measure (\<lambda>n. n)") auto

declare string_of_nat.simps [simp del]

definition string_of_int :: "int \<Rightarrow> string" where
  "string_of_int i = (if i < 0 then ''-'' @ string_of_nat (nat (- i)) else string_of_nat (nat i))"

definition commandReason :: "CommandResult \<Rightarrow> string" where
  "commandReason result =
     (case r_reason result of
        Some r \<Rightarrow> r
      | None \<Rightarrow>
          (let stderrSnippet = trim (r_stderr result);
               stderrText = (if length stderrSnippet > 0 then '' ('' @ stderrSnippet @ '')'' else '''')
           in r_command result @ '' exited with code '' @
              (case r_code result of Some c \<Rightarrow> string_of_int c | None \<Rightarrow> ''null'') @
              stderrText))"

text \<open>
  What \<^verbatim>\<open>JSON.parse\<close> throws, as the catch clause tells the cases apart:
  an \<^verbatim>\<open>Error\<close> with its message, or any other value.
\<close>

datatype thrown = ErrorWithMessage string | NotAnError

text \<open>\<^verbatim>\<open>error instanceof Error ? error.message : "invalid json"\<close>\<close>

definition thrownMessage :: "thrown \<Rightarrow> string" where
  "thrownMessage err =
     (case err of ErrorWithMessage message \<Rightarrow> message | NotAnError \<Rightarrow> ''invalid json'')"

text \<open>
  \<^verbatim>\<open>jsonMetricFromCommand\<close>. The two library calls are parameters: \<open>JSON_parse\<close> is
  \<^verbatim>\<open>JSON.parse\<close> (\<open>Inl\<close> what it throws, \<open>Inr\<close> the parsed value), and \<open>schema\<close> is
  \<^verbatim>\<open>schema.safeParse\<close> (\<open>None\<close> when \<^verbatim>\<open>success\<close> is false, else the validated data).
\<close>

definition jsonMetricFromCommand ::
  "(string \<Rightarrow> thrown + 'j) \<Rightarrow> CommandResult \<Rightarrow> ('j \<Rightarrow> 'a option) \<Rightarrow> string \<Rightarrow> 'a Metric" where
  "jsonMetricFromCommand JSON_parse result schema label =
     (if \<not> r_ok result then unknownMetric (label @ '': '' @ commandReason result)
      else
        (let trimmedOutput = trim (r_stdout result)
         in if length trimmedOutput = 0 then unknownMetric (label @ '': empty output'')
            else
              (case JSON_parse trimmedOutput of
                 Inl err \<Rightarrow>
                   (let rsn = thrownMessage err
                    in unknownMetric (label @ '': '' @ rsn))
               | Inr parsedJson \<Rightarrow>
                   (case schema parsedJson of
                      None \<Rightarrow> unknownMetric (label @ '': schema mismatch'')
                    | Some parsedData \<Rightarrow> knownMetric parsedData))))"

text \<open>
  \<^verbatim>\<open>runOpenClawJson\<close> awaits \<^verbatim>\<open>runCommand\<close> and hands what it resolved to, here the
  argument \<open>result\<close>, to \<^verbatim>\<open>jsonMetricFromCommand\<close>.
\<close>

definition runOpenClawJson ::
  "(string \<Rightarrow> thrown + 'j) \<Rightarrow> CommandResult \<Rightarrow> ('j \<Rightarrow> 'a option) \<Rightarrow> string \<Rightarrow> 'a Metric" where
  "runOpenClawJson JSON_parse result schema label =
     jsonMetricFromCommand JSON_parse result schema label"

text \<open>
  A small stand-in for the two library calls, used to run the bridge on concrete
  results: the parser accepts exactly the decimal digit strings and throws an
  \<^verbatim>\<open>Error\<close> on everything else; the schema accepts the numbers below 100.
\<close>

definition digitValue :: "char \<Rightarrow> nat" where
  "digitValue c = of_char c - 48"

definition isDigit :: "char \<Rightarrow> bool" where
  "isDigit c = List.member ''0123456789'' c"

definition decimalValue :: "string \<Rightarrow> nat" where
  "decimalValue ds = foldl (\<lambda>acc c. 10 * acc + digitValue c) 0 ds"

definition digitsParser :: "string \<Rightarrow> thrown + nat" where
  "digitsParser s =
     (if s \<noteq> [] \<and> list_all isDigit s then Inr (decimalValue s)
      else Inl (ErrorWithMessage ''Unexpected token''))"



section \<open>Dotted version comparison (collectors/versionDrift.ts)\<close>

text \<open>\<^verbatim>\<open>String.prototype.split\<close> with a one-character separator: the empty string
  gives one empty part.\<close>

fun split_on :: "char \<Rightarrow> string \<Rightarrow> string list" where
  "split_on sep [] = [[]]"
| "split_on sep (c # cs) =
     (if c = sep then [] # split_on sep cs
      else (case split_on sep cs of part # parts \<Rightarrow> (c # part) # parts | [] \<Rightarrow> [[c]]))"

text \<open>
  \<^verbatim>\<open>toParts\<close>. The built-in \<^verbatim>\<open>Number\<close> is a parameter \<open>Number\<close> from strings to
  \<open>real option\<close>: \<open>Some x\<close> stands for the finite number \<open>x\<close>, \<open>None\<close> for \<^verbatim>\<open>NaN\<close> and the
  two infinities, the results that \<^verbatim>\<open>Number.isFinite\<close> rejects.
\<close>

definition toParts :: "(string \<Rightarrow> real option) \<Rightarrow> string \<Rightarrow> real list" where
  "toParts Number v =
     map (\<lambda>part. case part of Some x \<Rightarrow> x | None \<Rightarrow> 0)
         (map (\<lambda>part. Number part) (split_on CHR ''.'' v))"

text \<open>\<^verbatim>\<open>parts[index] ?? 0\<close>: reading past the end of an array gives undefined.\<close>

definition partAt :: "real list \<Rightarrow> nat \<Rightarrow> real" where
  "partAt parts index = (if index < length parts then parts ! index else 0)"

text \<open>The \<^verbatim>\<open>for\<close> loop of \<^verbatim>\<open>compareDotVersions\<close>, from \<open>index\<close> on.\<close>

function compareLoop :: "real list \<Rightarrow> real list \<Rightarrow> nat \<Rightarrow> nat \<Rightarrow> int" where
  "compareLoop leftParts rightParts maxLength index =
     (if index < maxLength
      then (let leftPart = partAt leftParts index;
                rightPart = partAt rightParts index
            in if leftPart > rightPart then 1
               else if leftPart < rightPart then - 1
               else compareLoop leftParts rightParts maxLength (index + 1))
      else 0)"
  by pat_completeness auto
termination
  by (relation "measure (\<lambda>(leftParts, rightParts, maxLength, index). maxLength - index)") auto

declare compareLoop.simps [simp del]

definition compareDotVersions :: "(string \<Rightarrow> real option) \<Rightarrow> string \<Rightarrow> string \<Rightarrow> int" where
  "compareDotVersions Number left right =
     (let leftParts = toParts Number left;
          rightParts = toParts Number right;
          maxLength = max (length leftParts) (length rightParts)
      in compareLoop leftParts rightParts maxLength 0)"

text \<open>
  The comparison in the words of the specification: each string is split on the dot,
  each component is coerced to a number, a non-numeric component counting as 0; both
  lists of parts are padded with zeros to the longer length and compared as tuples, left
  to right.
\<close>

definition numberOrZero :: "(string \<Rightarrow> real option) \<Rightarrow> string \<Rightarrow> real" where
  "numberOrZero Number component =
     (if Number component = None then 0 else the (Number component))"

definition specParts :: "(string \<Rightarrow> real option) \<Rightarrow> string \<Rightarrow> real list" where
  "specParts Number v = map (numberOrZero Number) (split_on CHR ''.'' v)"

definition padTo :: "nat \<Rightarrow> real list \<Rightarrow> real list" where
  "padTo n parts = parts @ replicate (n - length parts) 0"

fun tupleCompare :: "real list \<Rightarrow> real list \<Rightarrow> int" where
  "tupleCompare (x # xs) (y # ys) =
     (if x > y then 1 else if x < y then - 1 else tupleCompare xs ys)"
| "tupleCompare _ _ = 0"

definition specCompareDotVersions :: "(string \<Rightarrow> real option) \<Rightarrow> string \<Rightarrow> string \<Rightarrow> int" where
  "specCompareDotVersions Number left right =
     (let leftParts = specParts Number left;
          rightParts = specParts Number right;
          n = max (length leftParts) (length rightParts)
      in tupleCompare (padTo n leftParts) (padTo n rightParts))"

text \<open>
  A reading of \<^verbatim>\<open>Number\<close> on the strings that version parts are made of: the empty
  string is 0, a string of decimal digits is its value, anything else is not a number.
\<close>

definition decimalNumber :: "string \<Rightarrow> real option" where
  "decimalNumber s = (if list_all isDigit s then Some (real (decimalValue s)) else None)"

text \<open>\<open>Number\<close> reads the decimal digit strings below \<open>2^53\<close> exactly, as the built-in
  does.\<close>

definition readsDecimals :: "(string \<Rightarrow> real option) \<Rightarrow> bool" where
  "readsDecimals Number =
     (\<forall>ds. ds \<noteq> [] \<and> list_all isDigit ds \<and> decimalValue ds < 2 ^ 53
           \<longrightarrow> Number ds = Some (real (decimalValue ds)))"

section \<open>Security collector (collectors/security.ts)\<close>

text \<open>The audit summary \<^verbatim>\<open>{critical, info, warn}\<close> and the payload of the audit command.\<close>

record AuditSummary =
  sum_critical :: int
  sum_info :: int
  sum_warn :: int

record SecurityAuditPayload =
  summary :: AuditSummary

text \<open>The parts of the status-source payload (collectors/statusSource.ts); every key is
  optional.\<close>

record StatusAgentEntry =
  ag_id :: "string option"
  ag_workspaceDir :: "string option"

record StatusAgents =
  ag_agents :: "StatusAgentEntry list option"
  ag_defaultId :: "string option"

record StatusGateway =
  sg_error :: "string option"
  sg_reachable :: "bool option"

record StatusSecurityAudit =
  sa_summary :: "AuditSummary option"

record StatusSessions =
  se_count :: "int option"

record StatusRegistry =
  rg_latestVersion :: "string option"

record StatusUpdate =
  up_registry :: "StatusRegistry option"

record StatusSource =
  ss_agents :: "StatusAgents option"
  ss_gateway :: "StatusGateway option"
  ss_securityAudit :: "StatusSecurityAudit option"
  ss_sessions :: "StatusSessions option"
  ss_update :: "StatusUpdate option"

definition securityFromSummary :: "AuditSummary \<Rightarrow> SecurityCard" where
  "securityFromSummary s =
     \<lparr>critical = knownMetric (sum_critical s),
      info = knownMetric (sum_info s),
      warning = knownMetric (sum_warn s)\<rparr>"

definition unknownSecurityCard :: "string \<Rightarrow> SecurityCard" where
  "unknownSecurityCard rsn =
     \<lparr>critical = unknownMetric rsn, info = unknownMetric rsn, warning = unknownMetric rsn\<rparr>"

text \<open>\<^verbatim>\<open>statusSourceMetric.value?.securityAudit?.summary\<close>, a chain of optional reads.\<close>

definition fallbackSummaryOf :: "StatusSource Metric \<Rightarrow> AuditSummary option" where
  "fallbackSummaryOf statusSourceMetric =
     Option.bind (Option.bind (mvalue statusSourceMetric) ss_securityAudit) sa_summary"

text \<open>
  \<^verbatim>\<open>collectSecurityCard\<close>. Its inputs are what the awaited audit command resolved to
  (\<open>auditResult\<close>) and the status-source metric; \<^verbatim>\<open>JSON.parse\<close> and the audit schema are
  parameters, as in the bridge. The first branch is taken when the audit metric is known
  and its value is not null.
\<close>

definition collectSecurityCard ::
  "(string \<Rightarrow> thrown + 'j) \<Rightarrow> ('j \<Rightarrow> SecurityAuditPayload option) \<Rightarrow> CommandResult \<Rightarrow>
   StatusSource Metric \<Rightarrow> SecurityCard CollectorOutput" where
  "collectSecurityCard JSON_parse securityAuditSchema auditResult statusSourceMetric =
     (let securityAuditMetric =
            runOpenClawJson JSON_parse auditResult securityAuditSchema
              ''openclaw security audit --json''
      in case (if known securityAuditMetric then mvalue securityAuditMetric else None) of
           Some payload \<Rightarrow> \<lparr>card = securityFromSummary (summary payload), co_warnings = []\<rparr>
         | None \<Rightarrow>
             (let fallbackSummary = fallbackSummaryOf statusSourceMetric
              in case fallbackSummary of
                   Some s \<Rightarrow>
                     \<lparr>card = securityFromSummary s,
                      co_warnings =
                        [buildWarning ''security'' ''security_audit_fallback_status''
                           (nullish (reason securityAuditMetric)
                              ''security audit command unavailable'')
                           sev_warn None]\<rparr>
                 | None \<Rightarrow>
                     (let rsn = nullish (reason securityAuditMetric)
                                  (nullish (reason statusSourceMetric)
                                     ''security summary unavailable'')
                      in \<lparr>card = unknownSecurityCard rsn,
                          co_warnings =
                            [buildWarning ''security'' ''security_summary_unknown'' rsn
                               sev_warn None]\<rparr>)))"

section \<open>The specification's vocabulary\<close>

text \<open>A metric that is known and carries the value \<open>v\<close>; a count that is known and
  greater than zero.\<close>

definition knownEquals :: "'a Metric \<Rightarrow> 'a \<Rightarrow> bool" where
  "knownEquals m v = (known m \<and> mvalue m = Some v)"

definition knownPositive :: "int Metric \<Rightarrow> bool" where
  "knownPositive m = (known m \<and> (case mvalue m of Some v \<Rightarrow> 0 < v | None \<Rightarrow> False))"

text \<open>The three RED conditions of the specification and the reasons that belong to them,
  in the order of the source.\<close>

definition redCondition :: "SnapshotWithoutOverall \<Rightarrow> bool" where
  "redCondition s =
     (knownPositive (critical (security s)) \<or>
      knownPositive (failingOrRecentErrorCount (cron s)) \<or>
      knownEquals (reachable (gateway s)) False)"

definition redClassReasons :: "SnapshotWithoutOverall \<Rightarrow> string list" where
  "redClassReasons s =
     (if knownPositive (critical (security s)) then [''critical security findings > 0''] else []) @
     (if knownPositive (failingOrRecentErrorCount (cron s)) then [''failing cron jobs > 0''] else []) @
     (if knownEquals (reachable (gateway s)) False then [''gateway unreachable''] else [])"

definition amberClassReasons :: "string list" where
  "amberClassReasons =
     [''warning findings > 0'', ''unknown state in critical cards'',
      ''repo drift: dirty repository'', ''repo drift: behind upstream'']"

text \<open>At least one of the nine watch-list metrics is unknown.\<close>

definition watchListUnknown :: "SnapshotWithoutOverall \<Rightarrow> bool" where
  "watchListUnknown s =
     (\<not> known (critical (security s)) \<or>
      \<not> known (warning (security s)) \<or>
      \<not> known (failingOrRecentErrorCount (cron s)) \<or>
      \<not> known (configuredCount (channels s)) \<or>
      \<not> known (reachable (gateway s)) \<or>
      \<not> known (clean (repoDrift s)) \<or>
      \<not> known (behindCount (repoDrift s)) \<or>
      \<not> known (installedVersion (versionDrift s)) \<or>
      \<not> known (latestVersion (versionDrift s)))"

text \<open>The three AMBER conditions on known values, and the AMBER tier as a whole.\<close>

definition amberSignal :: "SnapshotWithoutOverall \<Rightarrow> bool" where
  "amberSignal s =
     (knownPositive (warning (security s)) \<or>
      knownEquals (clean (repoDrift s)) False \<or>
      knownPositive (behindCount (repoDrift s)))"

definition amberCondition :: "SnapshotWithoutOverall \<Rightarrow> bool" where
  "amberCondition s = (amberSignal s \<or> watchListUnknown s)"

text \<open>Every consulted watch-list metric is known and healthy.\<close>

definition healthyWatchList :: "SnapshotWithoutOverall \<Rightarrow> bool" where
  "healthyWatchList s =
     (knownEquals (critical (security s)) 0 \<and>
      knownEquals (warning (security s)) 0 \<and>
      knownEquals (failingOrRecentErrorCount (cron s)) 0 \<and>
      knownEquals (reachable (gateway s)) True \<and>
      knownEquals (clean (repoDrift s)) True \<and>
      knownEquals (behindCount (repoDrift s)) 0 \<and>
      known (configuredCount (channels s)) \<and>
      known (installedVersion (versionDrift s)) \<and>
      known (latestVersion (versionDrift s)))"

text \<open>Snapshots built from the healthy baseline the way the deriver's tests build them.\<close>

definition redAndAmberSnapshot :: SnapshotWithoutOverall where
  "redAndAmberSnapshot =
     healthySnapshot
       \<lparr>cron := (cron healthySnapshot)\<lparr>failingOrRecentErrorCount := knownMetric 3\<rparr>,
        security := (security healthySnapshot)\<lparr>critical := knownMetric 1, warning := knownMetric 2\<rparr>\<rparr>"

definition redMetricsUnknownSnapshot :: SnapshotWithoutOverall where
  "redMetricsUnknownSnapshot =
     healthySnapshot
       \<lparr>cron := (cron healthySnapshot)\<lparr>failingOrRecentErrorCount := unknownMetric ''cron list unavailable''\<rparr>,
        gateway := (gateway healthySnapshot)\<lparr>reachable := unknownMetric ''gateway state unavailable''\<rparr>,
        security := (security healthySnapshot)\<lparr>critical := unknownMetric ''audit unavailable''\<rparr>\<rparr>"

definition versionsUnknownSnapshot :: SnapshotWithoutOverall where
  "versionsUnknownSnapshot =
     healthySnapshot
       \<lparr>versionDrift := (versionDrift healthySnapshot)
          \<lparr>installedVersion := unknownMetric ''openclaw --version: empty output'',
           latestVersion := unknownMetric ''latest unavailable''\<rparr>\<rparr>"

text \<open>A workspace whose cleanliness is known to be false; two metrics that agree on the
  known flag and on the value; a count that the count aggregation treats as unknown.\<close>

definition knownDirty :: "RepoWorkspaceDrift \<Rightarrow> bool" where
  "knownDirty w = knownEquals (ws_clean w) False"

definition sameKnownValue :: "'a Metric \<Rightarrow> 'a Metric \<Rightarrow> bool" where
  "sameKnownValue m n = (known m = known n \<and> mvalue m = mvalue n)"

definition unknownCount :: "int Metric \<Rightarrow> bool" where
  "unknownCount m = (\<not> known m \<or> mvalue m = None)"

text \<open>Workspace records for running the aggregator.\<close>

definition wsDirty :: RepoWorkspaceDrift where
  "wsDirty = workspaceDrift (knownMetric 0) (knownMetric 2) (knownMetric False)
               (knownMetric ''/repo/b'') ''/workspace/b''"

definition wsClean :: RepoWorkspaceDrift where
  "wsClean = workspaceDrift (knownMetric 1) (knownMetric 0) (knownMetric True)
               (knownMetric ''/repo/a'') ''/workspace/a''"

definition wsUnknownA :: RepoWorkspaceDrift where
  "wsUnknownA = workspaceDrift (knownMetric 0) (knownMetric 0) (unknownMetric ''status unavailable'')
                  (knownMetric ''/repo/c'') ''/workspace/c''"

definition wsUnknownB :: RepoWorkspaceDrift where
  "wsUnknownB = workspaceDrift (unknownMetric ''no upstream'') (unknownMetric ''no upstream'')
                  (unknownMetric ''git timed out'') (unknownMetric ''git timed out'')
                  ''/workspace/d''"

definition wsNoUpstream :: RepoWorkspaceDrift where
  "wsNoUpstream = workspaceDrift (unknownMetric ''upstream is not configured'')
                    (unknownMetric ''upstream is not configured'') (knownMetric True)
                    (knownMetric ''/repo/e'') ''/workspace/e''"










text \<open>The metric of the primary source of the security collector, and its failure.\<close>

definition auditMetric ::
  "(string \<Rightarrow> thrown + 'j) \<Rightarrow> ('j \<Rightarrow> SecurityAuditPayload option) \<Rightarrow> CommandResult \<Rightarrow>
   SecurityAuditPayload Metric" where
  "auditMetric JSON_parse securityAuditSchema auditResult =
     runOpenClawJson JSON_parse auditResult securityAuditSchema ''openclaw security audit --json''"

definition primaryFailed :: "SecurityAuditPayload Metric \<Rightarrow> bool" where
  "primaryFailed m = (\<not> (known m \<and> mvalue m \<noteq> None))"

text \<open>Inputs of the security collector: an audit command that could not be started, one
  whose output the schema rejects, a stand-in for the audit schema over the digit parser,
  two failed status sources, and a status source whose payload carries an audit summary.\<close>

definition auditNotFound :: CommandResult where
  "auditNotFound =
     \<lparr>r_args = [''security'', ''audit'', ''--json''], r_code = None, r_command = ''openclaw'',
      r_ok = False, r_reason = Some ''openclaw not found'', r_stderr = [], r_stdout = []\<rparr>"

definition auditRejected :: CommandResult where
  "auditRejected =
     \<lparr>r_args = [''security'', ''audit'', ''--json''], r_code = Some 0, r_command = ''openclaw'',
      r_ok = True, r_reason = None, r_stderr = [], r_stdout = ''700''\<rparr>"

definition auditSchemaStandIn :: "nat \<Rightarrow> SecurityAuditPayload option" where
  "auditSchemaStandIn n =
     (if n < 100
      then Some \<lparr>summary = \<lparr>sum_critical = int n, sum_info = 0, sum_warn = 0\<rparr>\<rparr>
      else None)"

definition failedStatus :: "StatusSource Metric" where
  "failedStatus = unknownMetric ''openclaw status --json: schema mismatch''"

definition timedOutStatus :: "StatusSource Metric" where
  "timedOutStatus = unknownMetric ''openclaw status --json: openclaw timed out after 10000ms''"

definition statusWithSummary :: "StatusSource Metric" where
  "statusWithSummary =
     knownMetric
       \<lparr>ss_agents = None, ss_gateway = None,
        ss_securityAudit =
          Some \<lparr>sa_summary = Some \<lparr>sum_critical = 1, sum_info = 4, sum_warn = 2\<rparr>\<rparr>,
        ss_sessions = None, ss_update = None\<rparr>"

section \<open>The overall-status deriver\<close>

lemma metricGreaterThan_zero: "metricGreaterThan m 0 = knownPositive m"
  by (auto simp: metricGreaterThan_def knownPositive_def split: option.splits)

lemma metricEqualsBoolean_False: "metricEqualsBoolean m False = knownEquals m False"
  by (simp add: metricEqualsBoolean_def knownEquals_def)

lemma red_card:
  "redCondition s \<Longrightarrow> deriveOverallCard s = \<lparr>level = RED, reasons = redClassReasons s\<rparr>"
  by (auto simp: deriveOverallCard_def Let_def redCondition_def redClassReasons_def
        metricGreaterThan_zero metricEqualsBoolean_False)

lemma not_red_level: "\<not> redCondition s \<Longrightarrow> level (deriveOverallCard s) \<noteq> RED"
  by (simp add: deriveOverallCard_def Let_def redCondition_def
        metricGreaterThan_zero metricEqualsBoolean_False)

lemma amber_card:
  "\<not> redCondition s \<Longrightarrow> amberCondition s \<Longrightarrow>
   deriveOverallCard s = \<lparr>level = AMBER, reasons =
     (if knownPositive (warning (security s)) then [''warning findings > 0''] else []) @
     (if watchListUnknown s then [''unknown state in critical cards''] else []) @
     (if knownEquals (clean (repoDrift s)) False then [''repo drift: dirty repository''] else []) @
     (if knownPositive (behindCount (repoDrift s)) then [''repo drift: behind upstream''] else [])\<rparr>"
  by (auto simp: deriveOverallCard_def Let_def redCondition_def amberCondition_def
        amberSignal_def watchListUnknown_def
        metricGreaterThan_zero metricEqualsBoolean_False metricUnknown_def)

lemma green_card:
  "\<not> redCondition s \<Longrightarrow> \<not> amberCondition s \<Longrightarrow>
   deriveOverallCard s = \<lparr>level = GREEN, reasons = [''all health checks passed'']\<rparr>"
  by (auto simp: deriveOverallCard_def Let_def redCondition_def amberCondition_def
        amberSignal_def watchListUnknown_def
        metricGreaterThan_zero metricEqualsBoolean_False metricUnknown_def)

lemma redClassReasons_not_amber: "set (redClassReasons s) \<inter> set amberClassReasons = {}"
  by (simp add: redClassReasons_def amberClassReasons_def)

lemma unknown_not_positive: "\<not> known m \<Longrightarrow> \<not> knownPositive m"
  by (simp add: knownPositive_def)

lemma unknown_not_equals: "\<not> known m \<Longrightarrow> \<not> knownEquals m v"
  by (simp add: knownEquals_def)

lemma healthy_not_red: "healthyWatchList s \<Longrightarrow> \<not> redCondition s"
  by (auto simp: healthyWatchList_def redCondition_def knownEquals_def knownPositive_def)

lemma healthy_not_amber: "healthyWatchList s \<Longrightarrow> \<not> amberCondition s"
  by (auto simp: healthyWatchList_def amberCondition_def amberSignal_def watchListUnknown_def
        knownEquals_def knownPositive_def)

lemma reasons_cases:
  "reasons (deriveOverallCard s) = redClassReasons s
 \<or> set (reasons (deriveOverallCard s)) \<subseteq> set amberClassReasons
 \<or> reasons (deriveOverallCard s) = [''all health checks passed'']"
proof (cases "redCondition s")
  case True
  then show ?thesis using red_card [of s] by simp
next
  case False
  show ?thesis
  proof (cases "amberCondition s")
    case True
    with False show ?thesis
      using amber_card [of s] by (auto simp: amberClassReasons_def)
  next
    case nam: False
    with False show ?thesis using green_card [of s] by simp
  qed
qed

lemma red_reason_needs_condition:
  "''critical security findings > 0'' \<in> set (reasons (deriveOverallCard s)) \<Longrightarrow>
     knownPositive (critical (security s))"
  "''failing cron jobs > 0'' \<in> set (reasons (deriveOverallCard s)) \<Longrightarrow>
     knownPositive (failingOrRecentErrorCount (cron s))"
  "''gateway unreachable'' \<in> set (reasons (deriveOverallCard s)) \<Longrightarrow>
     knownEquals (reachable (gateway s)) False"
  using reasons_cases [of s]
  by (auto simp: redClassReasons_def amberClassReasons_def split: if_splits)

text \<open>
  C1. The deriver returns RED exactly when a RED condition holds: critical security
  findings known and positive, failing cron count known and positive, or gateway
  reachability known to be false. When one holds, the reasons are the reasons of all RED
  conditions that hold, in the source's order, and none of them is an AMBER reason. An
  unknown metric never contributes its RED reason, and when the three metrics are all
  unknown the level is not RED.
\<close>

theorem deriveOverallCard_red:
  "(level (deriveOverallCard s) = RED \<longleftrightarrow> redCondition s)
 \<and> (redCondition s \<longrightarrow>
      reasons (deriveOverallCard s) = redClassReasons s \<and>
      set (reasons (deriveOverallCard s)) \<inter> set amberClassReasons = {})
 \<and> (\<not> known (critical (security s)) \<and>
    \<not> known (failingOrRecentErrorCount (cron s)) \<and>
    \<not> known (reachable (gateway s)) \<longrightarrow> level (deriveOverallCard s) \<noteq> RED)
 \<and> (\<not> known (critical (security s)) \<longrightarrow>
      ''critical security findings > 0'' \<notin> set (reasons (deriveOverallCard s)))
 \<and> (\<not> known (failingOrRecentErrorCount (cron s)) \<longrightarrow>
      ''failing cron jobs > 0'' \<notin> set (reasons (deriveOverallCard s)))
 \<and> (\<not> known (reachable (gateway s)) \<longrightarrow>
      ''gateway unreachable'' \<notin> set (reasons (deriveOverallCard s)))"
proof -
  have c1: "level (deriveOverallCard s) = RED \<longleftrightarrow> redCondition s"
    using red_card [of s] not_red_level [of s] by (cases "redCondition s") simp_all
  have c2: "redCondition s \<longrightarrow>
      reasons (deriveOverallCard s) = redClassReasons s \<and>
      set (reasons (deriveOverallCard s)) \<inter> set amberClassReasons = {}"
    using red_card [of s] redClassReasons_not_amber [of s] by simp
  have c3: "\<not> known (critical (security s)) \<and>
    \<not> known (failingOrRecentErrorCount (cron s)) \<and>
    \<not> known (reachable (gateway s)) \<longrightarrow> level (deriveOverallCard s) \<noteq> RED"
  proof
    assume "\<not> known (critical (security s)) \<and>
      \<not> known (failingOrRecentErrorCount (cron s)) \<and> \<not> known (reachable (gateway s))"
    then have "\<not> redCondition s"
      by (simp add: redCondition_def unknown_not_positive unknown_not_equals)
    then show "level (deriveOverallCard s) \<noteq> RED" by (rule not_red_level)
  qed
  have c4: "\<not> known (critical (security s)) \<longrightarrow>
      ''critical security findings > 0'' \<notin> set (reasons (deriveOverallCard s))"
    using red_reason_needs_condition(1) [of s] unknown_not_positive by blast
  have c5: "\<not> known (failingOrRecentErrorCount (cron s)) \<longrightarrow>
      ''failing cron jobs > 0'' \<notin> set (reasons (deriveOverallCard s))"
    using red_reason_needs_condition(2) [of s] unknown_not_positive by blast
  have c6: "\<not> known (reachable (gateway s)) \<longrightarrow>
      ''gateway unreachable'' \<notin> set (reasons (deriveOverallCard s))"
    using red_reason_needs_condition(3) [of s]
      unknown_not_equals [of "reachable (gateway s)" False] by blast
  show ?thesis by (intro conjI c1 c2 c3 c4 c5 c6)
qed

theorem deriveOverallCard_red_witness:
  "redCondition redAndAmberSnapshot
 \<and> amberSignal redAndAmberSnapshot
 \<and> level (deriveOverallCard redAndAmberSnapshot) = RED
 \<and> reasons (deriveOverallCard redAndAmberSnapshot) =
     [''critical security findings > 0'', ''failing cron jobs > 0'']
 \<and> \<not> known (critical (security redMetricsUnknownSnapshot))
 \<and> \<not> known (failingOrRecentErrorCount (cron redMetricsUnknownSnapshot))
 \<and> \<not> known (reachable (gateway redMetricsUnknownSnapshot))
 \<and> level (deriveOverallCard redMetricsUnknownSnapshot) \<noteq> RED"
proof -
  have r: "redCondition redAndAmberSnapshot"
    by (simp add: redCondition_def redAndAmberSnapshot_def healthySnapshot_def
          knownPositive_def knownMetric_def)
  have a: "amberSignal redAndAmberSnapshot"
    by (simp add: amberSignal_def redAndAmberSnapshot_def healthySnapshot_def
          knownPositive_def knownMetric_def)
  have rs: "redClassReasons redAndAmberSnapshot =
      [''critical security findings > 0'', ''failing cron jobs > 0'']"
    by (simp add: redClassReasons_def redAndAmberSnapshot_def healthySnapshot_def
          knownPositive_def knownEquals_def knownMetric_def)
  have u: "\<not> known (critical (security redMetricsUnknownSnapshot))
     \<and> \<not> known (failingOrRecentErrorCount (cron redMetricsUnknownSnapshot))
     \<and> \<not> known (reachable (gateway redMetricsUnknownSnapshot))"
    by (simp add: redMetricsUnknownSnapshot_def healthySnapshot_def unknownMetric_def)
  have n: "level (deriveOverallCard redMetricsUnknownSnapshot) \<noteq> RED"
    using deriveOverallCard_red [of redMetricsUnknownSnapshot] u by blast
  have l: "level (deriveOverallCard redAndAmberSnapshot) = RED
     \<and> reasons (deriveOverallCard redAndAmberSnapshot) = redClassReasons redAndAmberSnapshot"
    using deriveOverallCard_red [of redAndAmberSnapshot] r by blast
  show ?thesis
    using r a rs u n l by simp
qed

text \<open>
  C2. When no RED condition holds and at least one of the nine watch-list metrics is
  unknown, the deriver returns AMBER and the reason "unknown state in critical cards"
  occurs exactly once in its reasons, however many of the nine are unknown; when no
  other AMBER signal holds, it is the only reason.
\<close>

theorem deriveOverallCard_unknown_amber:
  assumes "\<not> redCondition s" and "watchListUnknown s"
  shows "level (deriveOverallCard s) = AMBER
       \<and> count_list (reasons (deriveOverallCard s)) ''unknown state in critical cards'' = 1
       \<and> (\<not> amberSignal s \<longrightarrow>
            reasons (deriveOverallCard s) = [''unknown state in critical cards''])"
proof -
  from assms(2) have "amberCondition s" by (simp add: amberCondition_def)
  from amber_card [OF assms(1) this] assms(2) show ?thesis
    by (simp add: amberSignal_def)
qed

theorem deriveOverallCard_unknown_amber_witness:
  "\<not> redCondition versionsUnknownSnapshot
 \<and> watchListUnknown versionsUnknownSnapshot
 \<and> \<not> known (installedVersion (versionDrift versionsUnknownSnapshot))
 \<and> \<not> known (latestVersion (versionDrift versionsUnknownSnapshot))
 \<and> deriveOverallCard versionsUnknownSnapshot =
     \<lparr>level = AMBER, reasons = [''unknown state in critical cards'']\<rparr>"
proof -
  have r: "\<not> redCondition versionsUnknownSnapshot"
    by (simp add: redCondition_def versionsUnknownSnapshot_def healthySnapshot_def
          knownPositive_def knownEquals_def knownMetric_def)
  have u: "\<not> known (installedVersion (versionDrift versionsUnknownSnapshot))
     \<and> \<not> known (latestVersion (versionDrift versionsUnknownSnapshot))"
    by (simp add: versionsUnknownSnapshot_def unknownMetric_def)
  then have w: "watchListUnknown versionsUnknownSnapshot"
    by (simp add: watchListUnknown_def)
  have a: "\<not> amberSignal versionsUnknownSnapshot"
    by (simp add: amberSignal_def versionsUnknownSnapshot_def healthySnapshot_def
          knownPositive_def knownEquals_def knownMetric_def)
  have "level (deriveOverallCard versionsUnknownSnapshot) = AMBER
      \<and> reasons (deriveOverallCard versionsUnknownSnapshot) = [''unknown state in critical cards'']"
    using deriveOverallCard_unknown_amber [OF r w] a by simp
  then have "deriveOverallCard versionsUnknownSnapshot =
     \<lparr>level = AMBER, reasons = [''unknown state in critical cards'']\<rparr>"
    by (cases "deriveOverallCard versionsUnknownSnapshot") simp
  with r w u show ?thesis by simp
qed

text \<open>
  C3. When no RED condition and no AMBER condition holds, the deriver returns GREEN with
  the single reason "all health checks passed"; this is the case in particular when every
  consulted watch-list metric is known and healthy. GREEN is returned in no other case.
\<close>

theorem deriveOverallCard_green:
  "(\<not> redCondition s \<and> \<not> amberCondition s \<longrightarrow>
      deriveOverallCard s = \<lparr>level = GREEN, reasons = [''all health checks passed'']\<rparr>)
 \<and> (healthyWatchList s \<longrightarrow>
      deriveOverallCard s = \<lparr>level = GREEN, reasons = [''all health checks passed'']\<rparr>)
 \<and> (level (deriveOverallCard s) = GREEN \<longleftrightarrow> \<not> redCondition s \<and> \<not> amberCondition s)"
proof -
  have c1: "\<not> redCondition s \<and> \<not> amberCondition s \<longrightarrow>
      deriveOverallCard s = \<lparr>level = GREEN, reasons = [''all health checks passed'']\<rparr>"
    using green_card [of s] by simp
  have c2: "healthyWatchList s \<longrightarrow>
      deriveOverallCard s = \<lparr>level = GREEN, reasons = [''all health checks passed'']\<rparr>"
    using green_card [of s] healthy_not_red [of s] healthy_not_amber [of s] by blast
  have c3: "level (deriveOverallCard s) = GREEN \<longleftrightarrow> \<not> redCondition s \<and> \<not> amberCondition s"
  proof (cases "redCondition s")
    case True
    then show ?thesis using red_card [of s] by simp
  next
    case False
    then show ?thesis
      using amber_card [of s] green_card [of s] by (cases "amberCondition s") simp_all
  qed
  show ?thesis by (intro conjI c1 c2 c3)
qed

theorem deriveOverallCard_green_witness:
  "healthyWatchList healthySnapshot
 \<and> \<not> redCondition healthySnapshot \<and> \<not> amberCondition healthySnapshot
 \<and> deriveOverallCard healthySnapshot =
     \<lparr>level = GREEN, reasons = [''all health checks passed'']\<rparr>"
proof -
  have h: "healthyWatchList healthySnapshot"
    by (simp add: healthyWatchList_def healthySnapshot_def knownEquals_def knownMetric_def)
  show ?thesis
    using deriveOverallCard_green [of healthySnapshot] h
      healthy_not_red [OF h] healthy_not_amber [OF h]
    by simp
qed

section \<open>The repo-drift aggregator\<close>

lemma member_known_false:
  "List.member (map (\<lambda>metric. mvalue metric = Some True)
      (filter (\<lambda>metric. known metric \<and> mvalue metric \<noteq> None) metrics)) False
   = (\<exists>m \<in> set metrics. knownEquals m False)"
  by (auto simp: knownEquals_def image_iff)

lemma aggregateBooleanMetric_dirty:
  "\<exists>m \<in> set metrics. knownEquals m False \<Longrightarrow> aggregateBooleanMetric metrics r = knownMetric False"
  unfolding aggregateBooleanMetric_def Let_def member_known_false by simp

lemma aggregateBooleanMetric_unknown:
  assumes "\<not> (\<exists>m \<in> set metrics. knownEquals m False)" "\<exists>m \<in> set metrics. \<not> known m"
  shows "aggregateBooleanMetric metrics r =
           unknownMetric (nullish (firstReason (filter (\<lambda>metric. \<not> known metric) metrics)) r)"
proof -
  from assms(2) have "filter (\<lambda>metric. \<not> known metric) metrics \<noteq> []"
    by (simp add: filter_empty_conv)
  with assms(1) show ?thesis
    unfolding aggregateBooleanMetric_def Let_def member_known_false by simp
qed

lemma aggregateBooleanMetric_clean:
  assumes "\<not> (\<exists>m \<in> set metrics. knownEquals m False)" "\<forall>m \<in> set metrics. known m"
  shows "aggregateBooleanMetric metrics r = knownMetric True"
proof -
  from assms(2) have "filter (\<lambda>metric. \<not> known metric) metrics = []"
    by (simp add: filter_empty_conv)
  with assms(1) show ?thesis
    unfolding aggregateBooleanMetric_def Let_def member_known_false by simp
qed

lemma firstReason_filter:
  assumes "filter P ms \<noteq> []"
  shows "\<exists>m \<in> set ms. P m \<and> firstReason (filter P ms) = reason m"
proof -
  from assms obtain m rest where h: "filter P ms = m # rest"
    by (cases "filter P ms") auto
  then have "m \<in> set (filter P ms)" by simp
  then have "m \<in> set ms" "P m" by auto
  with h show ?thesis by (auto simp: firstReason_def)
qed

lemma clean_aggregate:
  "ws \<noteq> [] \<Longrightarrow>
   clean (aggregateRepoDrift ws r) =
     aggregateBooleanMetric (map ws_clean ws) ''repo cleanliness unknown''"
  by (simp add: aggregateRepoDrift_def Let_def)

lemma dirtyCount_aggregate:
  "ws \<noteq> [] \<Longrightarrow> dirtyCount (aggregateRepoDrift ws r) =
     (if \<forall>w \<in> set ws. known (ws_clean w)
      then knownMetric (int (length (filter (\<lambda>w. mvalue (ws_clean w) = Some False) ws)))
      else unknownMetric ''dirty count unavailable from one or more repositories'')"
  by (simp add: aggregateRepoDrift_def Let_def list_all_iff)

lemma filter_dirty_all_known:
  "\<forall>w \<in> set ws. known (ws_clean w) \<Longrightarrow>
   filter (\<lambda>w. mvalue (ws_clean w) = Some False) ws = filter knownDirty ws"
  by (rule filter_cong) (auto simp: knownDirty_def knownEquals_def)



lemma count_pair:
  "aggregateCountMetric [a, b] d =
     (if \<not> known a \<or> mvalue a = None then unknownMetric (nullish (reason a) d)
      else if \<not> known b \<or> mvalue b = None then unknownMetric (nullish (reason b) d)
      else knownMetric (nullish (mvalue a) 0 + nullish (mvalue b) 0))"
  by (auto simp: aggregateCountMetric_def Let_def firstReason_def)

lemma bool_pair:
  "aggregateBooleanMetric [a, b] d =
     (if knownEquals a False \<or> knownEquals b False then knownMetric False
      else if \<not> known a then unknownMetric (nullish (reason a) d)
      else if \<not> known b then unknownMetric (nullish (reason b) d)
      else knownMetric True)"
  unfolding aggregateBooleanMetric_def Let_def member_known_false
  by (simp add: firstReason_def)

lemma bool_swap:
  "known (aggregateBooleanMetric [a, b] d) = known (aggregateBooleanMetric [b, a] d) \<and>
   mvalue (aggregateBooleanMetric [a, b] d) = mvalue (aggregateBooleanMetric [b, a] d)"
  by (simp add: bool_pair knownMetric_def unknownMetric_def)

lemma bool_swap_full:
  "known a \<or> known b \<Longrightarrow> aggregateBooleanMetric [a, b] d = aggregateBooleanMetric [b, a] d"
  by (auto simp: bool_pair)

lemma count_swap:
  "known (aggregateCountMetric [a, b] d) = known (aggregateCountMetric [b, a] d) \<and>
   mvalue (aggregateCountMetric [a, b] d) = mvalue (aggregateCountMetric [b, a] d)"
  by (simp add: count_pair knownMetric_def unknownMetric_def)

lemma count_swap_full:
  "\<not> unknownCount a \<or> \<not> unknownCount b \<Longrightarrow>
   aggregateCountMetric [a, b] d = aggregateCountMetric [b, a] d"
  by (auto simp: count_pair unknownCount_def add.commute)

lemma pair_fields:
  "clean (aggregateRepoDrift [A, B] r) =
     aggregateBooleanMetric [ws_clean A, ws_clean B] ''repo cleanliness unknown''"
  "aheadCount (aggregateRepoDrift [A, B] r) =
     aggregateCountMetric [ws_aheadCount A, ws_aheadCount B] ''ahead count unknown''"
  "behindCount (aggregateRepoDrift [A, B] r) =
     aggregateCountMetric [ws_behindCount A, ws_behindCount B] ''behind count unknown''"
  by (simp_all add: aggregateRepoDrift_def Let_def)

lemma pair_dirty:
  "dirtyCount (aggregateRepoDrift [A, B] r) = dirtyCount (aggregateRepoDrift [B, A] r)"
  by (auto simp: aggregateRepoDrift_def Let_def)

lemma pair_repos:
  "repositoryCount (aggregateRepoDrift [A, B] r) = repositoryCount (aggregateRepoDrift [B, A] r)"
  by (auto simp: aggregateRepoDrift_def Let_def)

text \<open>
  C4. For a non-empty list of workspaces: the aggregated \<open>clean\<close> is known-false when
  some workspace is known-dirty, whatever the others are; it is unknown, with the reason
  of a workspace whose cleanliness is unknown, when none is known-dirty and the
  cleanliness of at least one is unknown; it is known-true when none is known-dirty and
  the cleanliness of every workspace is known. \<open>dirtyCount\<close> is known exactly when the
  cleanliness of every workspace is known, and then it is the number of known-dirty
  workspaces.
\<close>

theorem aggregateRepoDrift_clean_dirtyCount:
  assumes "ws \<noteq> []"
  shows "((\<exists>w \<in> set ws. knownDirty w) \<longrightarrow> clean (aggregateRepoDrift ws r) = knownMetric False)
       \<and> (\<not> (\<exists>w \<in> set ws. knownDirty w) \<and> (\<exists>w \<in> set ws. \<not> known (ws_clean w)) \<longrightarrow>
            \<not> known (clean (aggregateRepoDrift ws r)) \<and>
            mvalue (clean (aggregateRepoDrift ws r)) = None \<and>
            (\<exists>w \<in> set ws. \<not> known (ws_clean w) \<and>
               reason (clean (aggregateRepoDrift ws r)) =
                 Some (nullish (reason (ws_clean w)) ''repo cleanliness unknown'')))
       \<and> (\<not> (\<exists>w \<in> set ws. knownDirty w) \<and> (\<forall>w \<in> set ws. known (ws_clean w)) \<longrightarrow>
            clean (aggregateRepoDrift ws r) = knownMetric True)
       \<and> (known (dirtyCount (aggregateRepoDrift ws r)) \<longleftrightarrow> (\<forall>w \<in> set ws. known (ws_clean w)))
       \<and> ((\<forall>w \<in> set ws. known (ws_clean w)) \<longrightarrow>
            dirtyCount (aggregateRepoDrift ws r) =
              knownMetric (int (length (filter knownDirty ws))))
       \<and> (\<not> (\<forall>w \<in> set ws. known (ws_clean w)) \<longrightarrow>
            mvalue (dirtyCount (aggregateRepoDrift ws r)) = None)"
proof -
  have c1: "(\<exists>w \<in> set ws. knownDirty w) \<longrightarrow> clean (aggregateRepoDrift ws r) = knownMetric False"
  proof
    assume "\<exists>w \<in> set ws. knownDirty w"
    then have "\<exists>m \<in> set (map ws_clean ws). knownEquals m False"
      by (auto simp: knownDirty_def)
    then show "clean (aggregateRepoDrift ws r) = knownMetric False"
      using assms aggregateBooleanMetric_dirty [of "map ws_clean ws"]
      by (simp add: clean_aggregate)
  qed
  have c2: "\<not> (\<exists>w \<in> set ws. knownDirty w) \<and> (\<exists>w \<in> set ws. \<not> known (ws_clean w)) \<longrightarrow>
            \<not> known (clean (aggregateRepoDrift ws r)) \<and>
            mvalue (clean (aggregateRepoDrift ws r)) = None \<and>
            (\<exists>w \<in> set ws. \<not> known (ws_clean w) \<and>
               reason (clean (aggregateRepoDrift ws r)) =
                 Some (nullish (reason (ws_clean w)) ''repo cleanliness unknown''))"
  proof
    assume h: "\<not> (\<exists>w \<in> set ws. knownDirty w) \<and> (\<exists>w \<in> set ws. \<not> known (ws_clean w))"
    then have a: "\<not> (\<exists>m \<in> set (map ws_clean ws). knownEquals m False)"
      and b: "\<exists>m \<in> set (map ws_clean ws). \<not> known m"
      by (auto simp: knownDirty_def)
    from b have ne: "filter (\<lambda>metric. \<not> known metric) (map ws_clean ws) \<noteq> []"
      by (simp add: filter_empty_conv)
    have eq: "clean (aggregateRepoDrift ws r) =
        unknownMetric (nullish (firstReason (filter (\<lambda>metric. \<not> known metric) (map ws_clean ws)))
           ''repo cleanliness unknown'')"
      using assms aggregateBooleanMetric_unknown [OF a b] by (simp add: clean_aggregate)
    from firstReason_filter [OF ne] obtain m where
      m: "m \<in> set (map ws_clean ws)" "\<not> known m"
         "firstReason (filter (\<lambda>metric. \<not> known metric) (map ws_clean ws)) = reason m"
      by blast
    from m(1) obtain w where w: "w \<in> set ws" "m = ws_clean w" by auto
    have "\<not> known (ws_clean w) \<and> reason (clean (aggregateRepoDrift ws r)) =
                 Some (nullish (reason (ws_clean w)) ''repo cleanliness unknown'')"
      using eq m w by (simp add: unknownMetric_def)
    with w(1) have "\<exists>w \<in> set ws. \<not> known (ws_clean w) \<and>
               reason (clean (aggregateRepoDrift ws r)) =
                 Some (nullish (reason (ws_clean w)) ''repo cleanliness unknown'')"
      by blast
    moreover have "\<not> known (clean (aggregateRepoDrift ws r))"
      "mvalue (clean (aggregateRepoDrift ws r)) = None"
      using eq by (simp_all add: unknownMetric_def)
    ultimately show "\<not> known (clean (aggregateRepoDrift ws r)) \<and>
            mvalue (clean (aggregateRepoDrift ws r)) = None \<and>
            (\<exists>w \<in> set ws. \<not> known (ws_clean w) \<and>
               reason (clean (aggregateRepoDrift ws r)) =
                 Some (nullish (reason (ws_clean w)) ''repo cleanliness unknown''))"
      by blast
  qed
  have c3: "\<not> (\<exists>w \<in> set ws. knownDirty w) \<and> (\<forall>w \<in> set ws. known (ws_clean w)) \<longrightarrow>
            clean (aggregateRepoDrift ws r) = knownMetric True"
  proof
    assume h: "\<not> (\<exists>w \<in> set ws. knownDirty w) \<and> (\<forall>w \<in> set ws. known (ws_clean w))"
    then have a: "\<not> (\<exists>m \<in> set (map ws_clean ws). knownEquals m False)"
      and b: "\<forall>m \<in> set (map ws_clean ws). known m"
      by (auto simp: knownDirty_def)
    show "clean (aggregateRepoDrift ws r) = knownMetric True"
      using assms aggregateBooleanMetric_clean [OF a b] by (simp add: clean_aggregate)
  qed
  have c4: "known (dirtyCount (aggregateRepoDrift ws r)) \<longleftrightarrow> (\<forall>w \<in> set ws. known (ws_clean w))"
    using assms by (simp add: dirtyCount_aggregate knownMetric_def unknownMetric_def)
  have c5: "(\<forall>w \<in> set ws. known (ws_clean w)) \<longrightarrow>
            dirtyCount (aggregateRepoDrift ws r) =
              knownMetric (int (length (filter knownDirty ws)))"
    using assms by (simp add: dirtyCount_aggregate filter_dirty_all_known)
  have c6: "\<not> (\<forall>w \<in> set ws. known (ws_clean w)) \<longrightarrow>
            mvalue (dirtyCount (aggregateRepoDrift ws r)) = None"
    using assms by (simp add: dirtyCount_aggregate unknownMetric_def)
  show ?thesis
    by (intro conjI c1 c2 c3 c4 c5 c6)
qed

text \<open>The specification's example: one known-dirty workspace and one workspace of unknown
  cleanliness give \<open>clean\<close> known-false and \<open>dirtyCount\<close> unknown. A clean and an unknown
  workspace give \<open>clean\<close> unknown; a clean and a dirty one give \<open>dirtyCount\<close> 1; two clean
  ones give \<open>clean\<close> known-true.\<close>

theorem aggregateRepoDrift_clean_dirtyCount_witness:
  "[wsDirty, wsUnknownA] \<noteq> []
 \<and> (\<exists>w \<in> set [wsDirty, wsUnknownA]. knownDirty w)
 \<and> \<not> (\<forall>w \<in> set [wsDirty, wsUnknownA]. known (ws_clean w))
 \<and> clean (aggregateRepoDrift [wsDirty, wsUnknownA] ''missing'') = knownMetric False
 \<and> \<not> known (dirtyCount (aggregateRepoDrift [wsDirty, wsUnknownA] ''missing''))
 \<and> mvalue (dirtyCount (aggregateRepoDrift [wsDirty, wsUnknownA] ''missing'')) = None
 \<and> \<not> known (clean (aggregateRepoDrift [wsClean, wsUnknownA] ''missing''))
 \<and> dirtyCount (aggregateRepoDrift [wsClean, wsDirty] ''missing'') = knownMetric 1
 \<and> clean (aggregateRepoDrift [wsClean, wsClean] ''missing'') = knownMetric True"
proof -
  have ne: "[wsDirty, wsUnknownA] \<noteq> []" by simp
  have d: "\<exists>w \<in> set [wsDirty, wsUnknownA]. knownDirty w"
    by (simp add: knownDirty_def knownEquals_def wsDirty_def workspaceDrift_def knownMetric_def)
  have u: "\<not> (\<forall>w \<in> set [wsDirty, wsUnknownA]. known (ws_clean w))"
    by (simp add: wsUnknownA_def workspaceDrift_def unknownMetric_def)
  have a: "clean (aggregateRepoDrift [wsDirty, wsUnknownA] ''missing'') = knownMetric False
     \<and> \<not> known (dirtyCount (aggregateRepoDrift [wsDirty, wsUnknownA] ''missing''))
     \<and> mvalue (dirtyCount (aggregateRepoDrift [wsDirty, wsUnknownA] ''missing'')) = None"
    using aggregateRepoDrift_clean_dirtyCount [OF ne, of "''missing''"] d u by blast
  have ne2: "[wsClean, wsUnknownA] \<noteq> []" by simp
  have nd2: "\<not> (\<exists>w \<in> set [wsClean, wsUnknownA]. knownDirty w)"
    by (simp add: knownDirty_def knownEquals_def wsClean_def wsUnknownA_def workspaceDrift_def
          knownMetric_def unknownMetric_def)
  have u2: "\<exists>w \<in> set [wsClean, wsUnknownA]. \<not> known (ws_clean w)"
    by (simp add: wsUnknownA_def workspaceDrift_def unknownMetric_def)
  have b: "\<not> known (clean (aggregateRepoDrift [wsClean, wsUnknownA] ''missing''))"
    using aggregateRepoDrift_clean_dirtyCount [OF ne2, of "''missing''"] nd2 u2 by blast
  have ne3: "[wsClean, wsDirty] \<noteq> []" by simp
  have k3: "\<forall>w \<in> set [wsClean, wsDirty]. known (ws_clean w)"
    by (simp add: wsClean_def wsDirty_def workspaceDrift_def knownMetric_def)
  have f3: "int (length (filter knownDirty [wsClean, wsDirty])) = 1"
    by (simp add: knownDirty_def knownEquals_def wsClean_def wsDirty_def workspaceDrift_def
          knownMetric_def)
  have "dirtyCount (aggregateRepoDrift [wsClean, wsDirty] ''missing'') =
      knownMetric (int (length (filter knownDirty [wsClean, wsDirty])))"
    using aggregateRepoDrift_clean_dirtyCount [OF ne3, of "''missing''"] k3 by blast
  then have c: "dirtyCount (aggregateRepoDrift [wsClean, wsDirty] ''missing'') = knownMetric 1"
    by (simp only: f3)
  have ne4: "[wsClean, wsClean] \<noteq> []" by simp
  have nd4: "\<not> (\<exists>w \<in> set [wsClean, wsClean]. knownDirty w)"
    by (simp add: knownDirty_def knownEquals_def wsClean_def workspaceDrift_def knownMetric_def)
  have k4: "\<forall>w \<in> set [wsClean, wsClean]. known (ws_clean w)"
    by (simp add: wsClean_def workspaceDrift_def knownMetric_def)
  have e: "clean (aggregateRepoDrift [wsClean, wsClean] ''missing'') = knownMetric True"
    using aggregateRepoDrift_clean_dirtyCount [OF ne4, of "''missing''"] nd4 k4 by blast
  show ?thesis
    by (intro conjI ne d u conjunct1 [OF a] conjunct1 [OF conjunct2 [OF a]]
          conjunct2 [OF conjunct2 [OF a]] b c e)
qed



lemma bool_pair_first:
  "\<not> known a \<Longrightarrow> \<not> known b \<Longrightarrow>
   aggregateBooleanMetric [a, b] d = unknownMetric (nullish (reason a) d)"
  by (simp add: bool_pair knownEquals_def)

lemma count_pair_first:
  "unknownCount a \<Longrightarrow> aggregateCountMetric [a, b] d = unknownMetric (nullish (reason a) d)"
  by (auto simp: count_pair unknownCount_def)

text \<open>
  C6, as the code has it. Aggregating \<open>[A, B]\<close> and \<open>[B, A]\<close> gives the same known flag and
  the same value for \<open>clean\<close>, \<open>aheadCount\<close> and \<open>behindCount\<close>, and the same
  \<open>dirtyCount\<close> and \<open>repositoryCount\<close> metrics. The whole \<open>clean\<close> metric, reason
  included, is the same as soon as the cleanliness of one of the two workspaces is known,
  and so is each count as soon as one of the two workspaces has it known with a value. When
  the metric of both workspaces is unknown, each order surfaces the reason of the workspace
  listed first, or the fixed text of that metric when it carries no reason.
\<close>

theorem aggregateRepoDrift_swap:
  "sameKnownValue (clean (aggregateRepoDrift [A, B] r)) (clean (aggregateRepoDrift [B, A] r))
 \<and> sameKnownValue (aheadCount (aggregateRepoDrift [A, B] r))
                  (aheadCount (aggregateRepoDrift [B, A] r))
 \<and> sameKnownValue (behindCount (aggregateRepoDrift [A, B] r))
                  (behindCount (aggregateRepoDrift [B, A] r))
 \<and> dirtyCount (aggregateRepoDrift [A, B] r) = dirtyCount (aggregateRepoDrift [B, A] r)
 \<and> repositoryCount (aggregateRepoDrift [A, B] r) = repositoryCount (aggregateRepoDrift [B, A] r)
 \<and> (known (ws_clean A) \<or> known (ws_clean B) \<longrightarrow>
      clean (aggregateRepoDrift [A, B] r) = clean (aggregateRepoDrift [B, A] r))
 \<and> (\<not> unknownCount (ws_aheadCount A) \<or> \<not> unknownCount (ws_aheadCount B) \<longrightarrow>
      aheadCount (aggregateRepoDrift [A, B] r) = aheadCount (aggregateRepoDrift [B, A] r))
 \<and> (\<not> unknownCount (ws_behindCount A) \<or> \<not> unknownCount (ws_behindCount B) \<longrightarrow>
      behindCount (aggregateRepoDrift [A, B] r) = behindCount (aggregateRepoDrift [B, A] r))
 \<and> (\<not> known (ws_clean A) \<and> \<not> known (ws_clean B) \<longrightarrow>
      clean (aggregateRepoDrift [A, B] r) =
        unknownMetric (nullish (reason (ws_clean A)) ''repo cleanliness unknown'') \<and>
      clean (aggregateRepoDrift [B, A] r) =
        unknownMetric (nullish (reason (ws_clean B)) ''repo cleanliness unknown''))
 \<and> (unknownCount (ws_aheadCount A) \<and> unknownCount (ws_aheadCount B) \<longrightarrow>
      aheadCount (aggregateRepoDrift [A, B] r) =
        unknownMetric (nullish (reason (ws_aheadCount A)) ''ahead count unknown'') \<and>
      aheadCount (aggregateRepoDrift [B, A] r) =
        unknownMetric (nullish (reason (ws_aheadCount B)) ''ahead count unknown''))
 \<and> (unknownCount (ws_behindCount A) \<and> unknownCount (ws_behindCount B) \<longrightarrow>
      behindCount (aggregateRepoDrift [A, B] r) =
        unknownMetric (nullish (reason (ws_behindCount A)) ''behind count unknown'') \<and>
      behindCount (aggregateRepoDrift [B, A] r) =
        unknownMetric (nullish (reason (ws_behindCount B)) ''behind count unknown''))"
proof -
  have c1: "sameKnownValue (clean (aggregateRepoDrift [A, B] r))
                           (clean (aggregateRepoDrift [B, A] r))"
    using bool_swap [of "ws_clean A" "ws_clean B"] by (simp add: pair_fields sameKnownValue_def)
  have c2: "sameKnownValue (aheadCount (aggregateRepoDrift [A, B] r))
                           (aheadCount (aggregateRepoDrift [B, A] r))"
    using count_swap [of "ws_aheadCount A" "ws_aheadCount B"]
    by (simp add: pair_fields sameKnownValue_def)
  have c3: "sameKnownValue (behindCount (aggregateRepoDrift [A, B] r))
                           (behindCount (aggregateRepoDrift [B, A] r))"
    using count_swap [of "ws_behindCount A" "ws_behindCount B"]
    by (simp add: pair_fields sameKnownValue_def)
  have c6: "known (ws_clean A) \<or> known (ws_clean B) \<longrightarrow>
      clean (aggregateRepoDrift [A, B] r) = clean (aggregateRepoDrift [B, A] r)"
    using bool_swap_full [of "ws_clean A" "ws_clean B"] by (simp add: pair_fields)
  have c7: "\<not> unknownCount (ws_aheadCount A) \<or> \<not> unknownCount (ws_aheadCount B) \<longrightarrow>
      aheadCount (aggregateRepoDrift [A, B] r) = aheadCount (aggregateRepoDrift [B, A] r)"
    using count_swap_full [of "ws_aheadCount A" "ws_aheadCount B"] by (simp add: pair_fields)
  have c8: "\<not> unknownCount (ws_behindCount A) \<or> \<not> unknownCount (ws_behindCount B) \<longrightarrow>
      behindCount (aggregateRepoDrift [A, B] r) = behindCount (aggregateRepoDrift [B, A] r)"
    using count_swap_full [of "ws_behindCount A" "ws_behindCount B"] by (simp add: pair_fields)
  have c9: "\<not> known (ws_clean A) \<and> \<not> known (ws_clean B) \<longrightarrow>
      clean (aggregateRepoDrift [A, B] r) =
        unknownMetric (nullish (reason (ws_clean A)) ''repo cleanliness unknown'') \<and>
      clean (aggregateRepoDrift [B, A] r) =
        unknownMetric (nullish (reason (ws_clean B)) ''repo cleanliness unknown'')"
    using bool_pair_first [of "ws_clean A" "ws_clean B"] bool_pair_first [of "ws_clean B" "ws_clean A"]
    by (simp add: pair_fields)
  have c10: "unknownCount (ws_aheadCount A) \<and> unknownCount (ws_aheadCount B) \<longrightarrow>
      aheadCount (aggregateRepoDrift [A, B] r) =
        unknownMetric (nullish (reason (ws_aheadCount A)) ''ahead count unknown'') \<and>
      aheadCount (aggregateRepoDrift [B, A] r) =
        unknownMetric (nullish (reason (ws_aheadCount B)) ''ahead count unknown'')"
    using count_pair_first [of "ws_aheadCount A" "ws_aheadCount B"]
      count_pair_first [of "ws_aheadCount B" "ws_aheadCount A"]
    by (simp add: pair_fields)
  have c11: "unknownCount (ws_behindCount A) \<and> unknownCount (ws_behindCount B) \<longrightarrow>
      behindCount (aggregateRepoDrift [A, B] r) =
        unknownMetric (nullish (reason (ws_behindCount A)) ''behind count unknown'') \<and>
      behindCount (aggregateRepoDrift [B, A] r) =
        unknownMetric (nullish (reason (ws_behindCount B)) ''behind count unknown'')"
    using count_pair_first [of "ws_behindCount A" "ws_behindCount B"]
      count_pair_first [of "ws_behindCount B" "ws_behindCount A"]
    by (simp add: pair_fields)
  show ?thesis
    by (intro conjI c1 c2 c3 pair_dirty pair_repos c6 c7 c8 c9 c10 c11)
qed

text \<open>A dirty workspace with an all-unknown one: the two orders agree on the whole
  metrics. The all-unknown workspace with one that has no upstream: each order surfaces
  the count reason of the workspace listed first.\<close>

theorem aggregateRepoDrift_swap_witness:
  "known (ws_clean wsDirty)
 \<and> \<not> unknownCount (ws_aheadCount wsDirty)
 \<and> \<not> unknownCount (ws_behindCount wsDirty)
 \<and> clean (aggregateRepoDrift [wsDirty, wsUnknownB] ''missing'') =
   clean (aggregateRepoDrift [wsUnknownB, wsDirty] ''missing'')
 \<and> aheadCount (aggregateRepoDrift [wsDirty, wsUnknownB] ''missing'') =
   aheadCount (aggregateRepoDrift [wsUnknownB, wsDirty] ''missing'')
 \<and> behindCount (aggregateRepoDrift [wsDirty, wsUnknownB] ''missing'') =
   behindCount (aggregateRepoDrift [wsUnknownB, wsDirty] ''missing'')
 \<and> unknownCount (ws_aheadCount wsUnknownB) \<and> unknownCount (ws_aheadCount wsNoUpstream)
 \<and> unknownCount (ws_behindCount wsUnknownB) \<and> unknownCount (ws_behindCount wsNoUpstream)
 \<and> aheadCount (aggregateRepoDrift [wsUnknownB, wsNoUpstream] ''missing'') =
     unknownMetric ''no upstream''
 \<and> aheadCount (aggregateRepoDrift [wsNoUpstream, wsUnknownB] ''missing'') =
     unknownMetric ''upstream is not configured''
 \<and> behindCount (aggregateRepoDrift [wsUnknownB, wsNoUpstream] ''missing'') =
     unknownMetric ''no upstream''
 \<and> \<not> known (ws_clean wsUnknownB) \<and> \<not> known (ws_clean wsUnknownA)
 \<and> clean (aggregateRepoDrift [wsUnknownB, wsUnknownA] ''missing'') =
     unknownMetric ''git timed out''"
proof -
  have k: "known (ws_clean wsDirty) \<and> \<not> unknownCount (ws_aheadCount wsDirty)
     \<and> \<not> unknownCount (ws_behindCount wsDirty)"
    by (simp add: wsDirty_def workspaceDrift_def knownMetric_def unknownCount_def)
  have a: "clean (aggregateRepoDrift [wsDirty, wsUnknownB] ''missing'') =
     clean (aggregateRepoDrift [wsUnknownB, wsDirty] ''missing'')
   \<and> aheadCount (aggregateRepoDrift [wsDirty, wsUnknownB] ''missing'') =
     aheadCount (aggregateRepoDrift [wsUnknownB, wsDirty] ''missing'')
   \<and> behindCount (aggregateRepoDrift [wsDirty, wsUnknownB] ''missing'') =
     behindCount (aggregateRepoDrift [wsUnknownB, wsDirty] ''missing'')"
    using aggregateRepoDrift_swap [of wsDirty wsUnknownB "''missing''"] k by blast
  have u: "unknownCount (ws_aheadCount wsUnknownB) \<and> unknownCount (ws_aheadCount wsNoUpstream)
     \<and> unknownCount (ws_behindCount wsUnknownB) \<and> unknownCount (ws_behindCount wsNoUpstream)"
    by (simp add: wsUnknownB_def wsNoUpstream_def workspaceDrift_def unknownMetric_def
          unknownCount_def)
  have ra: "nullish (reason (ws_aheadCount wsUnknownB)) ''ahead count unknown'' = ''no upstream''
     \<and> nullish (reason (ws_aheadCount wsNoUpstream)) ''ahead count unknown'' =
         ''upstream is not configured''
     \<and> nullish (reason (ws_behindCount wsUnknownB)) ''behind count unknown'' = ''no upstream''"
    by (simp add: wsUnknownB_def wsNoUpstream_def workspaceDrift_def unknownMetric_def
          nullish_def)
  have b: "aheadCount (aggregateRepoDrift [wsUnknownB, wsNoUpstream] ''missing'') =
       unknownMetric (nullish (reason (ws_aheadCount wsUnknownB)) ''ahead count unknown'')
     \<and> aheadCount (aggregateRepoDrift [wsNoUpstream, wsUnknownB] ''missing'') =
       unknownMetric (nullish (reason (ws_aheadCount wsNoUpstream)) ''ahead count unknown'')
     \<and> behindCount (aggregateRepoDrift [wsUnknownB, wsNoUpstream] ''missing'') =
       unknownMetric (nullish (reason (ws_behindCount wsUnknownB)) ''behind count unknown'')"
    using aggregateRepoDrift_swap [of wsUnknownB wsNoUpstream "''missing''"] u by blast
  have uc: "\<not> known (ws_clean wsUnknownB) \<and> \<not> known (ws_clean wsUnknownA)"
    by (simp add: wsUnknownA_def wsUnknownB_def workspaceDrift_def unknownMetric_def)
  have rc: "nullish (reason (ws_clean wsUnknownB)) ''repo cleanliness unknown'' = ''git timed out''"
    by (simp add: wsUnknownB_def workspaceDrift_def unknownMetric_def nullish_def)
  have c: "clean (aggregateRepoDrift [wsUnknownB, wsUnknownA] ''missing'') =
       unknownMetric (nullish (reason (ws_clean wsUnknownB)) ''repo cleanliness unknown'')"
    using aggregateRepoDrift_swap [of wsUnknownB wsUnknownA "''missing''"] uc by blast
  show ?thesis
    using k a u b uc c by (simp only: ra rc) simp
qed

text \<open>The claim as stated fails: with the cleanliness of both workspaces unknown for
  different reasons, the two orders surface different reasons in \<open>clean\<close>.\<close>

theorem aggregateRepoDrift_swap_counterexample:
  "clean (aggregateRepoDrift [wsUnknownA, wsUnknownB] ''missing'') =
     unknownMetric ''status unavailable''
 \<and> clean (aggregateRepoDrift [wsUnknownB, wsUnknownA] ''missing'') =
     unknownMetric ''git timed out''
 \<and> clean (aggregateRepoDrift [wsUnknownA, wsUnknownB] ''missing'') \<noteq>
   clean (aggregateRepoDrift [wsUnknownB, wsUnknownA] ''missing'')"
  by (simp add: pair_fields bool_pair knownEquals_def wsUnknownA_def wsUnknownB_def
        workspaceDrift_def unknownMetric_def knownMetric_def nullish_def)

section \<open>Warning deduplication\<close>

















section \<open>Dotted version comparison\<close>

lemma partAt_padTo: "i < n \<Longrightarrow> length xs \<le> n \<Longrightarrow> padTo n xs ! i = partAt xs i"
  by (simp add: partAt_def padTo_def nth_append)

lemma length_padTo: "length xs \<le> n \<Longrightarrow> length (padTo n xs) = n"
  by (simp add: padTo_def)

lemma drop_padTo:
  assumes "i < n" "length xs \<le> n"
  shows "drop i (padTo n xs) = partAt xs i # drop (Suc i) (padTo n xs)"
proof -
  have "i < length (padTo n xs)" using assms by (simp add: length_padTo)
  then have "drop i (padTo n xs) = padTo n xs ! i # drop (Suc i) (padTo n xs)"
    by (rule Cons_nth_drop_Suc [symmetric])
  then show ?thesis using assms by (simp add: partAt_padTo)
qed

lemma compareLoop_step:
  "i < n \<Longrightarrow> compareLoop l r n i =
     (if partAt l i > partAt r i then 1
      else if partAt l i < partAt r i then - 1
      else compareLoop l r n (i + 1))"
  by (subst compareLoop.simps) (simp add: Let_def)

lemma compareLoop_done: "\<not> i < n \<Longrightarrow> compareLoop l r n i = 0"
  by (subst compareLoop.simps) simp

text \<open>The loop from \<open>index\<close> on compares the rest of the two padded tuples.\<close>

lemma compareLoop_tupleCompare:
  "length l \<le> n \<Longrightarrow> length r \<le> n \<Longrightarrow>
   compareLoop l r n i = tupleCompare (drop i (padTo n l)) (drop i (padTo n r))"
proof (induction l r n i rule: compareLoop.induct)
  case (1 l r n i)
  show ?case
  proof (cases "i < n")
    case True
    note dl = drop_padTo [OF True "1.prems"(1)] and dr = drop_padTo [OF True "1.prems"(2)]
    note lhs = compareLoop_step [OF True, of l r]
    have rhs: "tupleCompare (partAt l i # xs) (partAt r i # ys) =
        (if partAt l i > partAt r i then 1
         else if partAt l i < partAt r i then - 1 else tupleCompare xs ys)" for xs ys
      by simp
    show ?thesis
    proof (cases "partAt r i < partAt l i")
      case gt: True
      show ?thesis by (simp only: lhs dl dr rhs gt if_True)
    next
      case ng: False
      show ?thesis
      proof (cases "partAt l i < partAt r i")
        case lt: True
        show ?thesis by (simp only: lhs dl dr rhs ng lt if_True if_False)
      next
        case nl: False
        have ih: "compareLoop l r n (i + 1) =
            tupleCompare (drop (i + 1) (padTo n l)) (drop (i + 1) (padTo n r))"
          using "1.IH" [OF True refl refl ng nl "1.prems"] .
        show ?thesis by (simp only: lhs dl dr rhs ng nl if_False ih Suc_eq_plus1)
      qed
    qed
  next
    case False
    have "drop i (padTo n l) = []" "drop i (padTo n r) = []"
      using False "1.prems" by (simp_all add: length_padTo)
    then show ?thesis by (simp only: compareLoop_done [OF False] tupleCompare.simps)
  qed
qed

lemma tupleCompare_range: "tupleCompare xs ys \<in> {- 1, 0, 1}"
  by (induction xs ys rule: tupleCompare.induct) auto

lemma numberOrZero_cases:
  "Number component = None \<Longrightarrow> numberOrZero Number component = 0"
  "Number component = Some x \<Longrightarrow> numberOrZero Number component = x"
  by (simp_all add: numberOrZero_def)

lemma toParts_specParts: "toParts Number v = specParts Number v"
  by (simp add: toParts_def specParts_def numberOrZero_def split: option.splits)

lemma compare_refines:
  "compareDotVersions Number l r = specCompareDotVersions Number l r"
  by (simp add: compareDotVersions_def specCompareDotVersions_def Let_def
        compareLoop_tupleCompare toParts_specParts)

lemma split_on_nonempty: "split_on sep s \<noteq> []"
  by (induction s) (auto split: list.splits)

lemma split_on_parts: "p \<in> set (split_on sep s) \<Longrightarrow> sep \<notin> set p"
  by (induction s arbitrary: p) (auto split: list.splits if_splits)

lemma join_split_on: "join [sep] (split_on sep s) = s"
proof (induction s)
  case Nil
  show ?case by simp
next
  case (Cons c s)
  show ?case
  proof (cases "split_on sep s")
    case Nil
    then show ?thesis using split_on_nonempty [of sep s] by simp
  next
    case outer: (Cons p ps)
    with Cons.IH show ?thesis by (cases ps) auto
  qed
qed

lemma readsDecimalsD:
  "readsDecimals Number \<Longrightarrow> ds \<noteq> [] \<Longrightarrow> list_all isDigit ds \<Longrightarrow>
   decimalValue ds < 2 ^ 53 \<Longrightarrow> Number ds = Some (real (decimalValue ds))"
  by (simp add: readsDecimals_def)

lemma ex_values:
  "decimalValue ''2026'' = 2026" "decimalValue ''2'' = 2" "decimalValue ''9'' = 9"
  "decimalValue ''12'' = 12" "decimalValue ''1'' = 1" "decimalValue ''3'' = 3"
  "decimalValue ''0'' = 0"
  by (simp_all add: decimalValue_def digitValue_def)

lemma ex_digits:
  "list_all isDigit ''2026''" "list_all isDigit ''2''" "list_all isDigit ''9''"
  "list_all isDigit ''12''" "list_all isDigit ''1''" "list_all isDigit ''3''"
  "list_all isDigit ''0''"
  by (simp_all add: isDigit_def)

lemma ex_split:
  "split_on CHR ''.'' ''2026.2.9'' = [''2026'', ''2'', ''9'']"
  "split_on CHR ''.'' ''2026.2.12'' = [''2026'', ''2'', ''12'']"
  "split_on CHR ''.'' ''1.2.3'' = [''1'', ''2'', ''3'']"
  "split_on CHR ''.'' ''2.0.0'' = [''2'', ''0'', ''0'']"
  "split_on CHR ''.'' ''1.9.9'' = [''1'', ''9'', ''9'']"
  by simp_all

lemma ex_number:
  assumes "readsDecimals Number"
  shows "Number ''2026'' = Some 2026" "Number ''2'' = Some 2" "Number ''9'' = Some 9"
    "Number ''12'' = Some 12" "Number ''1'' = Some 1" "Number ''3'' = Some 3"
    "Number ''0'' = Some 0"
proof -
  show "Number ''2026'' = Some 2026"
    using readsDecimalsD [OF assms _ ex_digits(1)] by (simp add: ex_values)
  show "Number ''2'' = Some 2"
    using readsDecimalsD [OF assms _ ex_digits(2)] by (simp add: ex_values)
  show "Number ''9'' = Some 9"
    using readsDecimalsD [OF assms _ ex_digits(3)] by (simp add: ex_values)
  show "Number ''12'' = Some 12"
    using readsDecimalsD [OF assms _ ex_digits(4)] by (simp add: ex_values)
  show "Number ''1'' = Some 1"
    using readsDecimalsD [OF assms _ ex_digits(5)] by (simp add: ex_values)
  show "Number ''3'' = Some 3"
    using readsDecimalsD [OF assms _ ex_digits(6)] by (simp add: ex_values)
  show "Number ''0'' = Some 0"
    using readsDecimalsD [OF assms _ ex_digits(7)] by (simp add: ex_values)
qed

lemma ex_toParts:
  assumes "readsDecimals Number"
  shows "toParts Number ''2026.2.9'' = [2026, 2, 9]"
    "toParts Number ''2026.2.12'' = [2026, 2, 12]"
    "toParts Number ''1.2.3'' = [1, 2, 3]"
    "toParts Number ''2.0.0'' = [2, 0, 0]"
    "toParts Number ''1.9.9'' = [1, 9, 9]"
  by (simp_all only: toParts_def ex_split list.map ex_number [OF assms] option.case)

lemma ex_compare:
  assumes "readsDecimals Number"
  shows "compareDotVersions Number ''2026.2.9'' ''2026.2.12'' = - 1"
    and "compareDotVersions Number ''1.2.3'' ''1.2.3'' = 0"
    and "compareDotVersions Number ''2.0.0'' ''1.9.9'' = 1"
  by (simp_all add: compare_refines specCompareDotVersions_def toParts_specParts [symmetric]
        ex_toParts [OF assms] padTo_def)

lemma readsDecimals_decimalNumber: "readsDecimals decimalNumber"
  by (simp add: readsDecimals_def decimalNumber_def)

text \<open>
  C9. The parts of a version are the pieces between the dots (no piece contains a dot,
  and joining the pieces with dots gives the string back), one number for each piece in
  the order of the pieces: what \<open>Number\<close> reads, and 0 for a piece that \<open>Number\<close> does not
  read as a finite number. \<open>compareDotVersions\<close> is the tuple comparison of the two lists
  of parts padded with zeros to the longer length, and its result is -1, 0 or 1. For every
  \<open>Number\<close> that reads decimal digit strings as the built-in does, the three comparisons of
  the specification come out as -1, 0 and 1.
\<close>

theorem compareDotVersions_spec:
  "compareDotVersions Number l r = specCompareDotVersions Number l r
 \<and> compareDotVersions Number l r \<in> {- 1, 0, 1}
 \<and> join ''.'' (split_on CHR ''.'' l) = l
 \<and> (\<forall>p \<in> set (split_on CHR ''.'' l). CHR ''.'' \<notin> set p)
 \<and> toParts Number l = map (numberOrZero Number) (split_on CHR ''.'' l)
 \<and> length (toParts Number l) = length (split_on CHR ''.'' l)
 \<and> (\<forall>i < length (split_on CHR ''.'' l).
       (Number (split_on CHR ''.'' l ! i) = None \<longrightarrow> toParts Number l ! i = 0) \<and>
       (\<forall>x. Number (split_on CHR ''.'' l ! i) = Some x \<longrightarrow> toParts Number l ! i = x))
 \<and> (readsDecimals Number \<longrightarrow>
      compareDotVersions Number ''2026.2.9'' ''2026.2.12'' = - 1 \<and>
      compareDotVersions Number ''1.2.3'' ''1.2.3'' = 0 \<and>
      compareDotVersions Number ''2.0.0'' ''1.9.9'' = 1)"
proof -
  have c2: "compareDotVersions Number l r \<in> {- 1, 0, 1}"
    unfolding compare_refines specCompareDotVersions_def Let_def by (rule tupleCompare_range)
  have c4: "\<forall>p \<in> set (split_on CHR ''.'' l). CHR ''.'' \<notin> set p"
    using split_on_parts by blast
  have c5: "toParts Number l = map (numberOrZero Number) (split_on CHR ''.'' l)"
    by (simp add: toParts_specParts specParts_def)
  have c6: "length (toParts Number l) = length (split_on CHR ''.'' l)"
    by (simp add: c5)
  have c7: "\<forall>i < length (split_on CHR ''.'' l).
       (Number (split_on CHR ''.'' l ! i) = None \<longrightarrow> toParts Number l ! i = 0) \<and>
       (\<forall>x. Number (split_on CHR ''.'' l ! i) = Some x \<longrightarrow> toParts Number l ! i = x)"
    by (simp add: c5 numberOrZero_cases)
  have c8: "readsDecimals Number \<longrightarrow>
      compareDotVersions Number ''2026.2.9'' ''2026.2.12'' = - 1 \<and>
      compareDotVersions Number ''1.2.3'' ''1.2.3'' = 0 \<and>
      compareDotVersions Number ''2.0.0'' ''1.9.9'' = 1"
    using ex_compare [of Number] by blast
  show ?thesis
    by (intro conjI compare_refines c2 join_split_on c4 c5 c6 c7 c8)
qed

text \<open>With \<open>decimalNumber\<close> for \<open>Number\<close>: the three comparisons of the specification; a
  part that is not a number is read as 0 and keeps its place, so that \<open>1.x.5\<close> is below
  \<open>1.2\<close>; missing trailing parts are read as 0.\<close>

theorem compareDotVersions_spec_witness:
  "readsDecimals decimalNumber
 \<and> compareDotVersions decimalNumber ''2026.2.9'' ''2026.2.12'' = - 1
 \<and> compareDotVersions decimalNumber ''1.2.3'' ''1.2.3'' = 0
 \<and> compareDotVersions decimalNumber ''2.0.0'' ''1.9.9'' = 1
 \<and> decimalNumber ''x'' = None
 \<and> toParts decimalNumber ''1.x.5'' = [1, 0, 5]
 \<and> compareDotVersions decimalNumber ''1.x.5'' ''1.2'' = - 1
 \<and> compareDotVersions decimalNumber ''1.x'' ''1'' = 0
 \<and> compareDotVersions decimalNumber ''1.2'' ''1.2.0.1'' = - 1"
proof -
  have e: "compareDotVersions decimalNumber ''2026.2.9'' ''2026.2.12'' = - 1 \<and>
      compareDotVersions decimalNumber ''1.2.3'' ''1.2.3'' = 0 \<and>
      compareDotVersions decimalNumber ''2.0.0'' ''1.9.9'' = 1"
    using compareDotVersions_spec [of decimalNumber "[]" "[]"] readsDecimals_decimalNumber
    by blast
  have n: "decimalNumber ''x'' = None"
    by (simp add: decimalNumber_def isDigit_def)
  have t: "toParts decimalNumber ''1.x.5'' = [1, 0, 5]"
    using compareDotVersions_spec [of decimalNumber "''1.x.5''" "[]"]
    by (simp add: numberOrZero_def decimalNumber_def isDigit_def decimalValue_def digitValue_def)
  have z: "compareDotVersions decimalNumber ''1.x.5'' ''1.2'' = - 1"
    using compareDotVersions_spec [of decimalNumber "''1.x.5''" "''1.2''"]
    by (simp add: specCompareDotVersions_def specParts_def numberOrZero_def decimalNumber_def
          isDigit_def decimalValue_def digitValue_def padTo_def)
  have x: "compareDotVersions decimalNumber ''1.x'' ''1'' = 0"
    using compareDotVersions_spec [of decimalNumber "''1.x''" "''1''"]
    by (simp add: specCompareDotVersions_def specParts_def numberOrZero_def decimalNumber_def
          isDigit_def decimalValue_def digitValue_def padTo_def)
  have y: "compareDotVersions decimalNumber ''1.2'' ''1.2.0.1'' = - 1"
    using compareDotVersions_spec [of decimalNumber "''1.2''" "''1.2.0.1''"]
    by (simp add: specCompareDotVersions_def specParts_def numberOrZero_def decimalNumber_def
          isDigit_def decimalValue_def digitValue_def padTo_def)
  show ?thesis
    by (intro conjI readsDecimals_decimalNumber conjunct1 [OF e] conjunct1 [OF conjunct2 [OF e]]
          conjunct2 [OF conjunct2 [OF e]] n t z x y)
qed

section \<open>The JSON metric of the command bridge\<close>


lemma known_not_unknown: "knownMetric v \<noteq> unknownMetric r"
  by (simp add: knownMetric_def unknownMetric_def)













section \<open>The security collector\<close>

lemma bridge_shape:
  "(\<exists>v. jsonMetricFromCommand JSON_parse result schema label = knownMetric v) \<or>
   (\<exists>r. jsonMetricFromCommand JSON_parse result schema label = unknownMetric r)"
  by (auto simp: jsonMetricFromCommand_def Let_def split: sum.splits option.splits)

lemma auditMetric_shape:
  "(\<exists>v. auditMetric P sch res = knownMetric v) \<or> (\<exists>r. auditMetric P sch res = unknownMetric r)"
  unfolding auditMetric_def runOpenClawJson_def by (rule bridge_shape)

lemma known_not_failed: "\<not> primaryFailed (knownMetric v)"
  by (simp add: primaryFailed_def knownMetric_def)

lemma failed_has_reason:
  assumes "primaryFailed (auditMetric P sch res)"
  shows "\<exists>ra. auditMetric P sch res = unknownMetric ra"
  using auditMetric_shape [of P sch res] assms known_not_failed by auto

lemma auditMetric_not_ok:
  "\<not> r_ok res \<Longrightarrow>
   auditMetric P sch res =
     unknownMetric (''openclaw security audit --json: '' @ commandReason res)"
  by (simp add: auditMetric_def runOpenClawJson_def jsonMetricFromCommand_def)

lemma collect_unknown:
  "auditMetric P sch res = unknownMetric ra \<Longrightarrow> fallbackSummaryOf s = None \<Longrightarrow>
   collectSecurityCard P sch res s =
     \<lparr>card = unknownSecurityCard ra,
      co_warnings = [buildWarning ''security'' ''security_summary_unknown'' ra sev_warn None]\<rparr>"
  by (simp add: collectSecurityCard_def auditMetric_def Let_def unknownMetric_def nullish_def)

lemma collect_fallback:
  "auditMetric P sch res = unknownMetric ra \<Longrightarrow> fallbackSummaryOf s = Some sm \<Longrightarrow>
   collectSecurityCard P sch res s =
     \<lparr>card = securityFromSummary sm,
      co_warnings =
        [buildWarning ''security'' ''security_audit_fallback_status'' ra sev_warn None]\<rparr>"
  by (simp add: collectSecurityCard_def auditMetric_def Let_def unknownMetric_def nullish_def)

text \<open>
  C10, as the code has it. When the audit command fails, its metric is unknown and
  carries a reason, the reason the command bridge gives it: the label of the audit command
  followed by the cause. When in addition the status-source payload carries no audit
  summary, the three metrics of the card are unknown with that one reason, and there is
  exactly one warning, of severity warn, with that reason; the output is the same for any
  two status sources without a summary, whatever their failure reasons. When the audit
  command fails and the payload carries a summary, the card is built from that summary and
  there is exactly one warning, of severity warn, whose reason is the audit command's
  failure reason.
\<close>

theorem collectSecurityCard_fallback:
  "(primaryFailed (auditMetric P sch res) \<longrightarrow>
      reason (auditMetric P sch res) \<noteq> None \<and>
      \<not> known (auditMetric P sch res) \<and> mvalue (auditMetric P sch res) = None)
 \<and> (\<not> r_ok res \<longrightarrow>
      primaryFailed (auditMetric P sch res) \<and>
      reason (auditMetric P sch res) =
        Some (''openclaw security audit --json: '' @ commandReason res))
 \<and> (primaryFailed (auditMetric P sch res) \<and> reason (auditMetric P sch res) = Some ra \<and>
    fallbackSummaryOf s = None \<longrightarrow>
      card (collectSecurityCard P sch res s) =
        \<lparr>critical = unknownMetric ra, info = unknownMetric ra, warning = unknownMetric ra\<rparr> \<and>
      co_warnings (collectSecurityCard P sch res s) =
        [\<lparr>w_code = ''security_summary_unknown'', w_context = None,
          w_reason = ra, w_severity = sev_warn, w_source = ''security''\<rparr>])
 \<and> (primaryFailed (auditMetric P sch res) \<and>
    fallbackSummaryOf s = None \<and> fallbackSummaryOf s' = None \<longrightarrow>
      collectSecurityCard P sch res s = collectSecurityCard P sch res s')
 \<and> (primaryFailed (auditMetric P sch res) \<and> reason (auditMetric P sch res) = Some ra \<and>
    fallbackSummaryOf s = Some sm \<longrightarrow>
      card (collectSecurityCard P sch res s) =
        \<lparr>critical = knownMetric (sum_critical sm),
         info = knownMetric (sum_info sm),
         warning = knownMetric (sum_warn sm)\<rparr> \<and>
      co_warnings (collectSecurityCard P sch res s) =
        [\<lparr>w_code = ''security_audit_fallback_status'', w_context = None,
          w_reason = ra, w_severity = sev_warn, w_source = ''security''\<rparr>])"
proof -
  have c1: "primaryFailed (auditMetric P sch res) \<longrightarrow>
      reason (auditMetric P sch res) \<noteq> None \<and>
      \<not> known (auditMetric P sch res) \<and> mvalue (auditMetric P sch res) = None"
  proof
    assume "primaryFailed (auditMetric P sch res)"
    from failed_has_reason [OF this] obtain r where "auditMetric P sch res = unknownMetric r"
      by blast
    then show "reason (auditMetric P sch res) \<noteq> None \<and>
      \<not> known (auditMetric P sch res) \<and> mvalue (auditMetric P sch res) = None"
      by (simp add: unknownMetric_def)
  qed
  have c2: "\<not> r_ok res \<longrightarrow>
      primaryFailed (auditMetric P sch res) \<and>
      reason (auditMetric P sch res) =
        Some (''openclaw security audit --json: '' @ commandReason res)"
    using auditMetric_not_ok [of res P sch]
    by (simp add: primaryFailed_def unknownMetric_def)
  have c3: "primaryFailed (auditMetric P sch res) \<and> reason (auditMetric P sch res) = Some ra \<and>
    fallbackSummaryOf s = None \<longrightarrow>
      card (collectSecurityCard P sch res s) =
        \<lparr>critical = unknownMetric ra, info = unknownMetric ra, warning = unknownMetric ra\<rparr> \<and>
      co_warnings (collectSecurityCard P sch res s) =
        [\<lparr>w_code = ''security_summary_unknown'', w_context = None,
          w_reason = ra, w_severity = sev_warn, w_source = ''security''\<rparr>]"
  proof
    assume h: "primaryFailed (auditMetric P sch res) \<and>
      reason (auditMetric P sch res) = Some ra \<and> fallbackSummaryOf s = None"
    from failed_has_reason [of P sch res] h obtain r where
      r: "auditMetric P sch res = unknownMetric r" by blast
    with h have "r = ra" by (simp add: unknownMetric_def)
    with r have "auditMetric P sch res = unknownMetric ra" by simp
    from collect_unknown [OF this, of s] h
    show "card (collectSecurityCard P sch res s) =
        \<lparr>critical = unknownMetric ra, info = unknownMetric ra, warning = unknownMetric ra\<rparr> \<and>
      co_warnings (collectSecurityCard P sch res s) =
        [\<lparr>w_code = ''security_summary_unknown'', w_context = None,
          w_reason = ra, w_severity = sev_warn, w_source = ''security''\<rparr>]"
      by (simp add: unknownSecurityCard_def buildWarning_def)
  qed
  have c4: "primaryFailed (auditMetric P sch res) \<and>
    fallbackSummaryOf s = None \<and> fallbackSummaryOf s' = None \<longrightarrow>
      collectSecurityCard P sch res s = collectSecurityCard P sch res s'"
  proof
    assume h: "primaryFailed (auditMetric P sch res) \<and>
      fallbackSummaryOf s = None \<and> fallbackSummaryOf s' = None"
    from failed_has_reason [of P sch res] h obtain r where
      r: "auditMetric P sch res = unknownMetric r" by blast
    from collect_unknown [OF r, of s] collect_unknown [OF r, of s'] h
    show "collectSecurityCard P sch res s = collectSecurityCard P sch res s'"
      by simp
  qed
  have c5: "primaryFailed (auditMetric P sch res) \<and> reason (auditMetric P sch res) = Some ra \<and>
    fallbackSummaryOf s = Some sm \<longrightarrow>
      card (collectSecurityCard P sch res s) =
        \<lparr>critical = knownMetric (sum_critical sm),
         info = knownMetric (sum_info sm),
         warning = knownMetric (sum_warn sm)\<rparr> \<and>
      co_warnings (collectSecurityCard P sch res s) =
        [\<lparr>w_code = ''security_audit_fallback_status'', w_context = None,
          w_reason = ra, w_severity = sev_warn, w_source = ''security''\<rparr>]"
  proof
    assume h: "primaryFailed (auditMetric P sch res) \<and>
      reason (auditMetric P sch res) = Some ra \<and> fallbackSummaryOf s = Some sm"
    from failed_has_reason [of P sch res] h obtain r where
      r: "auditMetric P sch res = unknownMetric r" by blast
    with h have "r = ra" by (simp add: unknownMetric_def)
    with r have "auditMetric P sch res = unknownMetric ra" by simp
    from collect_fallback [OF this, of s sm] h
    show "card (collectSecurityCard P sch res s) =
        \<lparr>critical = knownMetric (sum_critical sm),
         info = knownMetric (sum_info sm),
         warning = knownMetric (sum_warn sm)\<rparr> \<and>
      co_warnings (collectSecurityCard P sch res s) =
        [\<lparr>w_code = ''security_audit_fallback_status'', w_context = None,
          w_reason = ra, w_severity = sev_warn, w_source = ''security''\<rparr>]"
      by (simp add: securityFromSummary_def buildWarning_def)
  qed
  show ?thesis by (intro conjI c1 c2 c3 c4 c5)
qed

lemma auditNotFound_metric:
  "auditMetric digitsParser auditSchemaStandIn auditNotFound =
     unknownMetric ''openclaw security audit --json: openclaw not found''"
  by (simp add: auditMetric_not_ok auditNotFound_def commandReason_def)

lemma auditRejected_metric:
  "auditMetric digitsParser auditSchemaStandIn auditRejected =
     unknownMetric ''openclaw security audit --json: schema mismatch''"
  by (simp add: auditMetric_def runOpenClawJson_def jsonMetricFromCommand_def auditRejected_def
        trim_def isWhiteSpace_def digitsParser_def isDigit_def decimalValue_def digitValue_def
        auditSchemaStandIn_def)

lemma no_summary:
  "fallbackSummaryOf failedStatus = None" "fallbackSummaryOf timedOutStatus = None"
  by (simp_all add: fallbackSummaryOf_def failedStatus_def timedOutStatus_def unknownMetric_def)

text \<open>An audit command that cannot be started and an audit output that the schema rejects,
  each with a failed status source and with a status source that carries a summary.\<close>

theorem collectSecurityCard_fallback_witness:
  "\<not> r_ok auditNotFound
 \<and> primaryFailed (auditMetric digitsParser auditSchemaStandIn auditNotFound)
 \<and> fallbackSummaryOf failedStatus = None
 \<and> card (collectSecurityCard digitsParser auditSchemaStandIn auditNotFound failedStatus) =
     unknownSecurityCard ''openclaw security audit --json: openclaw not found''
 \<and> co_warnings (collectSecurityCard digitsParser auditSchemaStandIn auditNotFound failedStatus) =
     [buildWarning ''security'' ''security_summary_unknown''
        ''openclaw security audit --json: openclaw not found'' sev_warn None]
 \<and> fallbackSummaryOf statusWithSummary = Some \<lparr>sum_critical = 1, sum_info = 4, sum_warn = 2\<rparr>
 \<and> card (collectSecurityCard digitsParser auditSchemaStandIn auditNotFound statusWithSummary) =
     \<lparr>critical = knownMetric 1, info = knownMetric 4, warning = knownMetric 2\<rparr>
 \<and> co_warnings
     (collectSecurityCard digitsParser auditSchemaStandIn auditNotFound statusWithSummary) =
     [buildWarning ''security'' ''security_audit_fallback_status''
        ''openclaw security audit --json: openclaw not found'' sev_warn None]
 \<and> primaryFailed (auditMetric digitsParser auditSchemaStandIn auditRejected)
 \<and> card (collectSecurityCard digitsParser auditSchemaStandIn auditRejected timedOutStatus) =
     unknownSecurityCard ''openclaw security audit --json: schema mismatch''"
proof -
  have o: "\<not> r_ok auditNotFound" by (simp add: auditNotFound_def)
  have cr: "commandReason auditNotFound = ''openclaw not found''"
    by (simp add: commandReason_def auditNotFound_def)
  have p0: "primaryFailed (auditMetric digitsParser auditSchemaStandIn auditNotFound)
     \<and> reason (auditMetric digitsParser auditSchemaStandIn auditNotFound) =
         Some (''openclaw security audit --json: '' @ commandReason auditNotFound)"
    using collectSecurityCard_fallback
      [of digitsParser auditSchemaStandIn auditNotFound "[]" failedStatus failedStatus
          "\<lparr>sum_critical = 1, sum_info = 4, sum_warn = 2\<rparr>"] o
    by blast
  have p: "primaryFailed (auditMetric digitsParser auditSchemaStandIn auditNotFound)
     \<and> reason (auditMetric digitsParser auditSchemaStandIn auditNotFound) =
         Some ''openclaw security audit --json: openclaw not found''"
    using p0 by (simp add: cr)
  have f: "fallbackSummaryOf statusWithSummary =
      Some \<lparr>sum_critical = 1, sum_info = 4, sum_warn = 2\<rparr>"
    by (simp add: fallbackSummaryOf_def statusWithSummary_def knownMetric_def)
  have u0: "card (collectSecurityCard digitsParser auditSchemaStandIn auditNotFound failedStatus) =
       \<lparr>critical = unknownMetric ''openclaw security audit --json: openclaw not found'',
        info = unknownMetric ''openclaw security audit --json: openclaw not found'',
        warning = unknownMetric ''openclaw security audit --json: openclaw not found''\<rparr>
     \<and> co_warnings (collectSecurityCard digitsParser auditSchemaStandIn auditNotFound failedStatus) =
       [\<lparr>w_code = ''security_summary_unknown'', w_context = None,
         w_reason = ''openclaw security audit --json: openclaw not found'',
         w_severity = sev_warn, w_source = ''security''\<rparr>]"
    using collectSecurityCard_fallback
      [of digitsParser auditSchemaStandIn auditNotFound
          "''openclaw security audit --json: openclaw not found''" failedStatus failedStatus
          "\<lparr>sum_critical = 1, sum_info = 4, sum_warn = 2\<rparr>"]
      p no_summary(1)
    by blast
  have u: "card (collectSecurityCard digitsParser auditSchemaStandIn auditNotFound failedStatus) =
       unknownSecurityCard ''openclaw security audit --json: openclaw not found''
     \<and> co_warnings (collectSecurityCard digitsParser auditSchemaStandIn auditNotFound failedStatus) =
       [buildWarning ''security'' ''security_summary_unknown''
          ''openclaw security audit --json: openclaw not found'' sev_warn None]"
    by (simp add: u0 unknownSecurityCard_def buildWarning_def)
  have k0: "card (collectSecurityCard digitsParser auditSchemaStandIn auditNotFound statusWithSummary) =
       \<lparr>critical = knownMetric (sum_critical \<lparr>sum_critical = 1, sum_info = 4, sum_warn = 2\<rparr>),
        info = knownMetric (sum_info \<lparr>sum_critical = 1, sum_info = 4, sum_warn = 2\<rparr>),
        warning = knownMetric (sum_warn \<lparr>sum_critical = 1, sum_info = 4, sum_warn = 2\<rparr>)\<rparr>
     \<and> co_warnings
         (collectSecurityCard digitsParser auditSchemaStandIn auditNotFound statusWithSummary) =
       [\<lparr>w_code = ''security_audit_fallback_status'', w_context = None,
         w_reason = ''openclaw security audit --json: openclaw not found'',
         w_severity = sev_warn, w_source = ''security''\<rparr>]"
    using collectSecurityCard_fallback
      [of digitsParser auditSchemaStandIn auditNotFound
          "''openclaw security audit --json: openclaw not found''" statusWithSummary
          statusWithSummary "\<lparr>sum_critical = 1, sum_info = 4, sum_warn = 2\<rparr>"]
      p f
    by blast
  have k: "card (collectSecurityCard digitsParser auditSchemaStandIn auditNotFound statusWithSummary) =
       \<lparr>critical = knownMetric 1, info = knownMetric 4, warning = knownMetric 2\<rparr>
     \<and> co_warnings
         (collectSecurityCard digitsParser auditSchemaStandIn auditNotFound statusWithSummary) =
       [buildWarning ''security'' ''security_audit_fallback_status''
          ''openclaw security audit --json: openclaw not found'' sev_warn None]"
    by (simp add: k0 buildWarning_def)
  have pr: "primaryFailed (auditMetric digitsParser auditSchemaStandIn auditRejected)
     \<and> reason (auditMetric digitsParser auditSchemaStandIn auditRejected) =
         Some ''openclaw security audit --json: schema mismatch''"
    by (simp add: auditRejected_metric primaryFailed_def unknownMetric_def)
  have q0: "card (collectSecurityCard digitsParser auditSchemaStandIn auditRejected timedOutStatus) =
       \<lparr>critical = unknownMetric ''openclaw security audit --json: schema mismatch'',
        info = unknownMetric ''openclaw security audit --json: schema mismatch'',
        warning = unknownMetric ''openclaw security audit --json: schema mismatch''\<rparr>"
    using collectSecurityCard_fallback
      [of digitsParser auditSchemaStandIn auditRejected
          "''openclaw security audit --json: schema mismatch''" timedOutStatus timedOutStatus
          "\<lparr>sum_critical = 1, sum_info = 4, sum_warn = 2\<rparr>"]
      pr no_summary(2)
    by blast
  have q: "card (collectSecurityCard digitsParser auditSchemaStandIn auditRejected timedOutStatus) =
       unknownSecurityCard ''openclaw security audit --json: schema mismatch''"
    by (simp add: q0 unknownSecurityCard_def)
  show ?thesis
    by (intro conjI o conjunct1 [OF p] no_summary(1) conjunct1 [OF u] conjunct2 [OF u] f
          conjunct1 [OF k] conjunct2 [OF k] conjunct1 [OF pr] q)
qed

text \<open>The claim as stated fails: with the audit command not found and the status source
  failed, the reason of the card and of the warning is the audit command's reason alone;
  the status source's failure reason is no part of it, and another failure reason of
  the status source gives the same output.\<close>

theorem collectSecurityCard_fallback_counterexample:
  "reason failedStatus = Some ''openclaw status --json: schema mismatch''
 \<and> reason timedOutStatus = Some ''openclaw status --json: openclaw timed out after 10000ms''
 \<and> reason (critical (card
      (collectSecurityCard digitsParser auditSchemaStandIn auditNotFound failedStatus))) =
     Some ''openclaw security audit --json: openclaw not found''
 \<and> map w_reason (co_warnings
      (collectSecurityCard digitsParser auditSchemaStandIn auditNotFound failedStatus)) =
     [''openclaw security audit --json: openclaw not found'']
 \<and> collectSecurityCard digitsParser auditSchemaStandIn auditNotFound failedStatus =
   collectSecurityCard digitsParser auditSchemaStandIn auditNotFound timedOutStatus"
proof -
  have r: "reason failedStatus = Some ''openclaw status --json: schema mismatch''
     \<and> reason timedOutStatus = Some ''openclaw status --json: openclaw timed out after 10000ms''"
    by (simp add: failedStatus_def timedOutStatus_def unknownMetric_def)
  note a = collect_unknown [OF auditNotFound_metric no_summary(1)]
  note b = collect_unknown [OF auditNotFound_metric no_summary(2)]
  have c: "reason (critical (card
      (collectSecurityCard digitsParser auditSchemaStandIn auditNotFound failedStatus))) =
     Some ''openclaw security audit --json: openclaw not found''"
    by (simp add: a unknownSecurityCard_def unknownMetric_def)
  have w: "map w_reason (co_warnings
      (collectSecurityCard digitsParser auditSchemaStandIn auditNotFound failedStatus)) =
     [''openclaw security audit --json: openclaw not found'']"
    by (simp add: a buildWarning_def)
  have e: "collectSecurityCard digitsParser auditSchemaStandIn auditNotFound failedStatus =
     collectSecurityCard digitsParser auditSchemaStandIn auditNotFound timedOutStatus"
    by (simp only: a b)
  show ?thesis
    by (intro conjI conjunct1 [OF r] conjunct2 [OF r] c w e)
qed

end
